theory Spec2Isabelle
  imports Main "HOL-Library.AList" "HOL-Library.Sublist"
begin

section \<open>Values and exceptions\<close>

text \<open>
  The Flickr client is created with \<open>format='parsed-json'\<close>: every response is a parsed
  JSON document. Numbers with a fraction or an exponent are left out of the model; a
  dictionary is an association list in insertion order, read with \<open>map_of\<close>.
  Strings are lists of 8-bit characters.
\<close>

datatype json =
    JNull
  | JBool bool
  | JInt int
  | JStr string
  | JList "json list"
  | JDict "(string \<times> json) list"

text \<open>
  The exceptions the two source files can meet. \<open>FlickrError\<close> carries the text that
  \<open>str(e)\<close> gives; \<open>KeyboardInterrupt\<close> stands for the exceptions that are not
  subclasses of \<open>Exception\<close>.
\<close>

datatype exc =
    KeyError string
  | TypeError
  | AttributeError
  | ValueError
  | FlickrError string
  | OSError string
  | RequestError string
  | KeyboardInterrupt

type_synonym 'a res = "exc + 'a"

definition bindR :: "'a res \<Rightarrow> ('a \<Rightarrow> 'b res) \<Rightarrow> 'b res" where
  "bindR m f = (case m of Inl e \<Rightarrow> Inl e | Inr x \<Rightarrow> f x)"

fun mapR :: "('a \<Rightarrow> 'b res) \<Rightarrow> 'a list \<Rightarrow> 'b list res" where
  "mapR f [] = Inr []"
| "mapR f (x # xs) = bindR (f x) (\<lambda>y. bindR (mapR f xs) (\<lambda>ys. Inr (y # ys)))"

text \<open>\<open>except Exception\<close> catches everything but the base exceptions.\<close>

definition is_Exception :: "exc \<Rightarrow> bool" where
  "is_Exception e = (e \<noteq> KeyboardInterrupt)"


subsection \<open>Python operations on parsed values\<close>

text \<open>\<open>d[k]\<close> with a string key.\<close>

definition subscr :: "json \<Rightarrow> string \<Rightarrow> json res" where
  "subscr d k =
     (case d of
        JDict kvs \<Rightarrow> (case map_of kvs k of Some v \<Rightarrow> Inr v | None \<Rightarrow> Inl (KeyError k))
      | _ \<Rightarrow> Inl TypeError)"

text \<open>\<open>d.get(k, default)\<close>: only a dictionary has the method.\<close>

definition dict_get :: "json \<Rightarrow> string \<Rightarrow> json \<Rightarrow> json res" where
  "dict_get d k dflt =
     (case d of
        JDict kvs \<Rightarrow> (case map_of kvs k of Some v \<Rightarrow> Inr v | None \<Rightarrow> Inr dflt)
      | _ \<Rightarrow> Inl AttributeError)"

text \<open>\<open>sub in s\<close> on strings.\<close>

fun contains :: "string \<Rightarrow> string \<Rightarrow> bool" where
  "contains sub [] = (sub = [])"
| "contains sub (c # cs) = (prefix sub (c # cs) \<or> contains sub cs)"

text \<open>\<open>k in d\<close> with a string \<open>k\<close>: key of a dictionary, element of a list, substring of a string.\<close>

definition py_in :: "string \<Rightarrow> json \<Rightarrow> bool res" where
  "py_in k d =
     (case d of
        JDict kvs \<Rightarrow> Inr (map_of kvs k \<noteq> None)
      | JList xs \<Rightarrow> Inr (JStr k \<in> set xs)
      | JStr s \<Rightarrow> Inr (contains k s)
      | _ \<Rightarrow> Inl TypeError)"

text \<open>Truth value of an object in a condition.\<close>

fun truthy :: "json \<Rightarrow> bool" where
  "truthy JNull = False"
| "truthy (JBool b) = b"
| "truthy (JInt n) = (n \<noteq> 0)"
| "truthy (JStr s) = (s \<noteq> [])"
| "truthy (JList xs) = (xs \<noteq> [])"
| "truthy (JDict kvs) = (kvs \<noteq> [])"

text \<open>\<open>for x in v\<close>: the elements of a list, the keys of a dictionary, the characters of a string.\<close>

definition py_iter :: "json \<Rightarrow> json list res" where
  "py_iter v =
     (case v of
        JList xs \<Rightarrow> Inr xs
      | JDict kvs \<Rightarrow> Inr (map (\<lambda>kv. JStr (fst kv)) kvs)
      | JStr s \<Rightarrow> Inr (map (\<lambda>c. JStr [c]) s)
      | _ \<Rightarrow> Inl TypeError)"

subsection \<open>\<open>int()\<close>\<close>

text \<open>
  \<open>int(s)\<close> on a string skips white space at both ends, reads an optional sign and
  then decimal digits, where single underscores may stand between digits. Anything
  else is a \<open>ValueError\<close>, and so is a numeral of more than 4300 digits, the limit the
  interpreter starts with. The white space that \<open>int()\<close> skips is the tab, the line
  feed, the vertical tab, the form feed, the carriage return and the space, and of the
  characters above 127 the next-line character and the no-break space; the separators
  28 to 31, which \<open>str.strip\<close> removes, are not skipped by \<open>int()\<close>.
\<close>

definition is_space :: "char \<Rightarrow> bool" where
  "is_space c = (of_char c \<in> set [9, 10, 11, 12, 13, 32, 133, 160 :: nat])"

definition is_digit :: "char \<Rightarrow> bool" where
  "is_digit c = (48 \<le> (of_char c :: nat) \<and> (of_char c :: nat) \<le> 57)"

definition digit_val :: "char \<Rightarrow> nat" where
  "digit_val c = of_char c - 48"

definition strip :: "string \<Rightarrow> string" where
  "strip s = rev (dropWhile is_space (rev (dropWhile is_space s)))"

fun scan_digits :: "nat \<Rightarrow> string \<Rightarrow> nat option" where
  "scan_digits acc [] = Some acc"
| "scan_digits acc (c # cs) =
     (if is_digit c then scan_digits (10 * acc + digit_val c) cs
      else if c = CHR ''_'' \<and> cs \<noteq> [] \<and> is_digit (hd cs) then scan_digits acc cs
      else None)"

definition max_str_digits :: nat where
  "max_str_digits = 4300"

definition parse_nat :: "string \<Rightarrow> nat option" where
  "parse_nat s =
     (if s \<noteq> [] \<and> is_digit (hd s) \<and> length (filter is_digit s) \<le> max_str_digits
      then scan_digits 0 s else None)"

definition parse_int :: "string \<Rightarrow> int option" where
  "parse_int s =
     (case strip s of
        [] \<Rightarrow> None
      | c # cs \<Rightarrow>
          if c = CHR ''-'' then map_option (\<lambda>n. - int n) (parse_nat cs)
          else if c = CHR ''+'' then map_option int (parse_nat cs)
          else map_option int (parse_nat (c # cs)))"

definition py_int :: "json \<Rightarrow> int res" where
  "py_int v =
     (case v of
        JInt n \<Rightarrow> Inr n
      | JBool b \<Rightarrow> Inr (if b then 1 else 0)
      | JStr s \<Rightarrow> (case parse_int s of Some n \<Rightarrow> Inr n | None \<Rightarrow> Inl ValueError)
      | _ \<Rightarrow> Inl TypeError)"

subsection \<open>String splitting\<close>

text \<open>\<open>s.split(sep)[-1]\<close> and \<open>s.split(sep)[0]\<close> for a one-character separator.\<close>

definition split_last :: "char \<Rightarrow> string \<Rightarrow> string" where
  "split_last sep s = rev (takeWhile (\<lambda>c. c \<noteq> sep) (rev s))"

definition split_first :: "char \<Rightarrow> string \<Rightarrow> string" where
  "split_first sep s = takeWhile (\<lambda>c. c \<noteq> sep) s"

subsection \<open>Paths\<close>

text \<open>\<open>os.path.join(a, b)\<close> and \<open>os.path.dirname(p)\<close> of \<open>posixpath\<close>.\<close>

definition path_join :: "string \<Rightarrow> string \<Rightarrow> string" where
  "path_join a b =
     (if b \<noteq> [] \<and> hd b = CHR ''/'' then b
      else if a = [] \<or> last a = CHR ''/'' then a @ b
      else a @ ''/'' @ b)"

definition dirname :: "string \<Rightarrow> string" where
  "dirname p =
     (let head = rev (dropWhile (\<lambda>c. c \<noteq> CHR ''/'') (rev p))
      in if head \<noteq> [] \<and> \<not> list_all (\<lambda>c. c = CHR ''/'') head
         then rev (dropWhile (\<lambda>c. c = CHR ''/'') (rev head))
         else head)"

section \<open>The world: remote service, disk, user cache\<close>

text \<open>
  The remote operations of \<open>flickr_client.py\<close>, one constructor per endpoint. A user id
  reaches \<open>people.getInfo\<close> as whatever value the comment or favourite record held.
\<close>

datatype request =
    PeopleGetPhotos string int int
  | PhotosGetInfo string
  | CommentsGetList string
  | PhotosGetFavorites string
  | PhotosGetExif string
  | PhotosGetSizes string
  | GeoGetLocation string
  | FavoritesGetList string int int
  | StatsGetPhotoStats string
  | GetAllContexts string
  | PhotosetsGetList string
  | PeopleGetInfo json

text \<open>A piece of a printed line: literal text, an interpolated value, or an exception.\<close>

datatype piece = Lit string | Val json | Exc exc

text \<open>
  What an execution does to the outside, in order: sleeping (in milliseconds), printing,
  one remote API call, one HTTP GET of a binary, and opening a file for writing (which
  creates or truncates it).
\<close>

datatype event =
    Sleep nat
  | Print "piece list"
  | Remote request
  | HttpGet string
  | Wrote string

text \<open>A file is truncated between \<open>open(path, 'w')\<close> and the end of a successful write.\<close>

datatype content = Truncated | Json json | Text string | Bytes string

record world =
  files :: "string \<Rightarrow> content option"
  dirs :: "string set"
  user_cache :: "(json \<times> json) list"
  trace :: "event list"

text \<open>
  The environment answers what the program cannot decide: the response of the service
  to a request, the result of an HTTP GET, whether a directory creation, an
  \<open>open(path, 'w')\<close> (a missing parent directory included) or a write fails, the local
  ISO rendering of an epoch time, the current time, the text of \<open>str(v)\<close> for a value
  that is not a string, and \<open>USER_ID\<close> of the configuration module. Each answer may
  depend on the number of events so far, so that two calls of one operation can differ.
\<close>

record env =
  remote :: "nat \<Rightarrow> request \<Rightarrow> json res"
  http :: "nat \<Rightarrow> string \<Rightarrow> string res"
  mkdir_error :: "nat \<Rightarrow> string \<Rightarrow> exc option"
  open_error :: "nat \<Rightarrow> string \<Rightarrow> exc option"
  write_error :: "nat \<Rightarrow> string \<Rightarrow> exc option"
  iso_local :: "int \<Rightarrow> string res"
  now_iso :: "nat \<Rightarrow> string"
  repr :: "json \<Rightarrow> string"
  USER_ID :: string

type_synonym 'a io = "world \<Rightarrow> 'a res \<times> world"

definition returnIO :: "'a \<Rightarrow> 'a io" where
  "returnIO x w = (Inr x, w)"

definition raiseIO :: "exc \<Rightarrow> 'a io" where
  "raiseIO e w = (Inl e, w)"

definition liftR :: "'a res \<Rightarrow> 'a io" where
  "liftR r w = (r, w)"

definition bindIO :: "'a io \<Rightarrow> ('a \<Rightarrow> 'b io) \<Rightarrow> 'b io" where
  "bindIO m f w = (case m w of (Inl e, w') \<Rightarrow> (Inl e, w') | (Inr x, w') \<Rightarrow> f x w')"

definition emit :: "event \<Rightarrow> unit io" where
  "emit ev w = (Inr (), w\<lparr>trace := trace w @ [ev]\<rparr>)"

definition tick :: "world \<Rightarrow> nat" where
  "tick w = length (trace w)"

text \<open>\<open>str(v)\<close> inside an f-string.\<close>

definition py_str :: "env \<Rightarrow> json \<Rightarrow> string" where
  "py_str E v = (case v of JStr s \<Rightarrow> s | _ \<Rightarrow> repr E v)"

subsection \<open>\<open>flickr_client.py\<close>: the gateway\<close>

text \<open>One call of an endpoint of the \<open>flickr\<close> object.\<close>

definition flickr_call :: "env \<Rightarrow> request \<Rightarrow> json io" where
  "flickr_call E rq w = (remote E (tick w) rq, w\<lparr>trace := trace w @ [Remote rq]\<rparr>)"

text \<open>\<open>try: return call except: return dflt\<close>, a bare \<open>except\<close>.\<close>

definition or_default :: "json io \<Rightarrow> json \<Rightarrow> json io" where
  "or_default m dflt w = (case m w of (Inl e, w') \<Rightarrow> (Inr dflt, w') | (Inr v, w') \<Rightarrow> (Inr v, w'))"

definition get_photos :: "env \<Rightarrow> string \<Rightarrow> int \<Rightarrow> int \<Rightarrow> json io" where
  "get_photos E uid per_page page = flickr_call E (PeopleGetPhotos uid per_page page)"

definition get_photo_info :: "env \<Rightarrow> string \<Rightarrow> json io" where
  "get_photo_info E photo_id = flickr_call E (PhotosGetInfo photo_id)"

definition get_photo_comments :: "env \<Rightarrow> string \<Rightarrow> json io" where
  "get_photo_comments E photo_id =
     or_default (flickr_call E (CommentsGetList photo_id))
       (JDict [(''comments'', JDict [(''comment'', JList [])])])"

definition get_photo_favorites :: "env \<Rightarrow> string \<Rightarrow> json io" where
  "get_photo_favorites E photo_id =
     or_default (flickr_call E (PhotosGetFavorites photo_id))
       (JDict [(''photo'', JDict [(''person'', JList [])])])"

definition get_photo_exif :: "env \<Rightarrow> string \<Rightarrow> json io" where
  "get_photo_exif E photo_id =
     or_default (flickr_call E (PhotosGetExif photo_id))
       (JDict [(''photo'', JDict [(''exif'', JList [])])])"

definition get_photo_sizes :: "env \<Rightarrow> string \<Rightarrow> json io" where
  "get_photo_sizes E photo_id = flickr_call E (PhotosGetSizes photo_id)"

definition get_photo_geo :: "env \<Rightarrow> string \<Rightarrow> json io" where
  "get_photo_geo E photo_id = or_default (flickr_call E (GeoGetLocation photo_id)) JNull"



definition get_photo_contexts :: "env \<Rightarrow> string \<Rightarrow> json io" where
  "get_photo_contexts E photo_id =
     or_default (flickr_call E (GetAllContexts photo_id)) (JDict [(''set'', JList [])])"


definition get_user_info :: "env \<Rightarrow> json \<Rightarrow> json io" where
  "get_user_info E uid = or_default (flickr_call E (PeopleGetInfo uid)) JNull"

subsection \<open>\<open>retry_on_error\<close>\<close>

text \<open>
  The decorator's wrapper: \<open>for attempt in range(max_retries)\<close> around one call of
  \<open>func\<close>, with \<open>return None\<close> after the loop. \<open>transient\<close> is the test on \<open>str(e)\<close>.
  No function of \<open>flickr_client.py\<close> carries the decorator.
\<close>

definition max_retries :: nat where
  "max_retries = 3"

definition transient :: "string \<Rightarrow> bool" where
  "transient msg = (contains ''201'' msg \<or> contains ''not currently available'' msg)"

fun wrapper_loop :: "'a io \<Rightarrow> nat list \<Rightarrow> 'a option io" where
  "wrapper_loop func [] w = (Inr None, w)"
| "wrapper_loop func (attempt # rest) w =
     (case func w of
        (Inr v, w1) \<Rightarrow> (Inr (Some v), w1)
      | (Inl e, w1) \<Rightarrow>
          (case e of
             FlickrError msg \<Rightarrow>
               if transient msg \<and> attempt < max_retries - 1
               then bindIO (emit (Print [Lit ''  API temporarily unavailable, waiting '',
                                          Val (JInt (int ((attempt + 1) * 5))), Lit '' seconds...'']))
                     (\<lambda>_. bindIO (emit (Sleep ((attempt + 1) * 5 * 1000)))
                     (\<lambda>_. wrapper_loop func rest)) w1
               else (Inl e, w1)
           | _ \<Rightarrow>
               if is_Exception e
               then (if attempt < max_retries - 1
                     then bindIO (emit (Print [Lit ''  Error: '', Exc e, Lit '', retrying...'']))
                           (\<lambda>_. bindIO (emit (Sleep 2000))
                           (\<lambda>_. wrapper_loop func rest)) w1
                     else (Inl e, w1))
               else (Inl e, w1)))"


subsection \<open>\<open>downloader.py\<close>: files\<close>

definition DATA_DIR :: string where
  "DATA_DIR = ''flickr_archive''"

definition PHOTOS_DIR :: string where
  "PHOTOS_DIR = path_join DATA_DIR ''my_photos''"

definition FAVORITES_DIR :: string where
  "FAVORITES_DIR = path_join DATA_DIR ''favorited_photos''"

definition RATE_DELAY :: nat where
  "RATE_DELAY = 1200"

text \<open>
  \<open>os.makedirs(d, exist_ok=True)\<close> creates the directory and its missing ancestors;
  the empty path is refused. \<open>os.path.exists\<close> knows files and directories.
\<close>

definition dir_chain :: "string \<Rightarrow> string list" where
  "dir_chain d =
     filter (\<lambda>q. q \<noteq> [] \<and> (q = d \<or> (drop (length q) d \<noteq> [] \<and> hd (drop (length q) d) = CHR ''/'')))
       (prefixes d)"

definition makedirs :: "env \<Rightarrow> string \<Rightarrow> unit io" where
  "makedirs E d w =
     (if d = [] then (Inl (OSError ''FileNotFoundError''), w)
      else case mkdir_error E (tick w) d of
             Some e \<Rightarrow> (Inl e, w)
           | None \<Rightarrow> (Inr (), w\<lparr>dirs := dirs w \<union> set (dir_chain d)\<rparr>))"

definition path_exists :: "world \<Rightarrow> string \<Rightarrow> bool" where
  "path_exists w p = (files w p \<noteq> None \<or> p \<in> dirs w)"

text \<open>
  \<open>with open(path, 'w') as f: ...\<close>: the open creates or truncates the file, the write
  fills it with the content computed after the open; a failed write leaves it truncated.
\<close>

definition write_file :: "env \<Rightarrow> string \<Rightarrow> (nat \<Rightarrow> content) \<Rightarrow> unit io" where
  "write_file E p mk w =
     (case open_error E (tick w) p of
        Some e \<Rightarrow> (Inl e, w)
      | None \<Rightarrow>
          let w1 = w\<lparr>files := (files w)(p \<mapsto> Truncated), trace := trace w @ [Wrote p]\<rparr>
          in case write_error E (tick w1) p of
               Some e \<Rightarrow> (Inl e, w1)
             | None \<Rightarrow> (Inr (), w1\<lparr>files := (files w1)(p \<mapsto> mk (tick w1))\<rparr>))"

definition save_json :: "env \<Rightarrow> json \<Rightarrow> string \<Rightarrow> unit io" where
  "save_json E data path =
     bindIO (makedirs E (dirname path)) (\<lambda>_.
     write_file E path (\<lambda>_. Json data))"

text \<open>
  \<open>download_photo\<close>: any \<open>Exception\<close> of the request, of the status check, of the
  directory creation or of the writing is printed and gives \<open>False\<close>. A URL that is
  not a string is refused by \<open>requests.get\<close>, inside the \<open>try\<close>.
\<close>

definition http_get :: "env \<Rightarrow> json \<Rightarrow> string io" where
  "http_get E url w =
     (case url of
        JStr u \<Rightarrow> (http E (tick w) u, w\<lparr>trace := trace w @ [HttpGet u]\<rparr>)
      | _ \<Rightarrow> (Inl (RequestError ''MissingSchema''), w))"

definition download_photo :: "env \<Rightarrow> json \<Rightarrow> string \<Rightarrow> bool io" where
  "download_photo E url path w =
     (case bindIO (http_get E url) (\<lambda>body.
           bindIO (makedirs E (dirname path)) (\<lambda>_.
           write_file E path (\<lambda>_. Bytes body))) w of
        (Inr u, w') \<Rightarrow> (Inr True, w')
      | (Inl e, w') \<Rightarrow>
          if is_Exception e
          then bindIO (emit (Print [Lit ''  Error downloading photo: '', Exc e])) (\<lambda>_. returnIO False) w'
          else (Inl e, w'))"

subsection \<open>\<open>get_cached_user_info\<close>\<close>

text \<open>
  \<open>USER_CACHE\<close> is a dictionary keyed by user id. A list or a dictionary cannot be a
  key (\<open>TypeError\<close>), and \<open>True\<close> and \<open>1\<close> are the same key.
\<close>

definition hashable :: "json \<Rightarrow> bool" where
  "hashable v = (case v of JList xs \<Rightarrow> False | JDict kvs \<Rightarrow> False | _ \<Rightarrow> True)"

definition key_norm :: "json \<Rightarrow> json" where
  "key_norm v = (case v of JBool b \<Rightarrow> JInt (if b then 1 else 0) | _ \<Rightarrow> v)"

definition cache_find :: "(json \<times> json) list \<Rightarrow> json \<Rightarrow> json option" where
  "cache_find cache k = map_of (map (\<lambda>kv. (key_norm (fst kv), snd kv)) cache) (key_norm k)"

definition BUDDYICON :: string where
  "BUDDYICON = ''https://www.flickr.com/images/buddyicon.gif''"

text \<open>\<open>d.get(k, {}).get('_content', dflt)\<close>.\<close>

definition get_content :: "json \<Rightarrow> string \<Rightarrow> json \<Rightarrow> json res" where
  "get_content d k dflt = bindR (dict_get d k (JDict [])) (\<lambda>x. dict_get x ''_content'' dflt)"

text \<open>The entry stored for \<open>user_id\<close>, from the answer \<open>user_info\<close> of \<open>get_user_info\<close>.\<close>

definition user_entry :: "env \<Rightarrow> json \<Rightarrow> json \<Rightarrow> json res" where
  "user_entry E user_id user_info =
     bindR (if truthy user_info then py_in ''person'' user_info else Inr False) (\<lambda>has_person.
     if has_person then
       bindR (subscr user_info ''person'') (\<lambda>person.
       bindR (dict_get person ''iconserver'' (JStr ''0'')) (\<lambda>iconserver.
       bindR (dict_get person ''iconfarm'' (JStr ''1'')) (\<lambda>iconfarm.
       bindR (dict_get person ''nsid'' (JStr [])) (\<lambda>nsid.
       bindR (if truthy iconserver then bindR (py_int iconserver) (\<lambda>n. Inr (n > 0)) else Inr False) (\<lambda>has_icon.
       bindR (get_content person ''realname'' (JStr [])) (\<lambda>realname.
       bindR (get_content person ''username'' (JStr [])) (\<lambda>username.
       bindR (dict_get person ''ispro'' (JInt 0)) (\<lambda>ispro.
       bindR (get_content person ''profileurl'' (JStr [])) (\<lambda>profileurl.
       Inr (JDict [
         (''display_name'', if truthy realname then realname else username),
         (''username'', username),
         (''realname'', realname),
         (''avatar_url'',
            if has_icon
            then JStr (''https://farm'' @ py_str E iconfarm @ ''.staticflickr.com/'' @ py_str E iconserver
                        @ ''/buddyicons/'' @ py_str E nsid @ ''.jpg'')
            else JStr BUDDYICON),
         (''is_pro'', ispro),
         (''profile_url'', profileurl)]))))))))))
     else
       Inr (JDict [
         (''display_name'', user_id),
         (''username'', user_id),
         (''realname'', JStr []),
         (''avatar_url'', JStr BUDDYICON),
         (''is_pro'', JInt 0),
         (''profile_url'', JStr (''https://www.flickr.com/people/'' @ py_str E user_id @ ''/''))]))"

definition get_cached_user_info :: "env \<Rightarrow> json \<Rightarrow> json io" where
  "get_cached_user_info E user_id w =
     (if \<not> hashable user_id then (Inl TypeError, w)
      else case cache_find (user_cache w) user_id of
             Some entry \<Rightarrow> (Inr entry, w)
           | None \<Rightarrow>
               bindIO (get_user_info E user_id) (\<lambda>user_info.
               bindIO (liftR (user_entry E user_id user_info)) (\<lambda>entry w'.
                 (Inr entry, w'\<lparr>user_cache := user_cache w' @ [(user_id, entry)]\<rparr>))) w)"

subsection \<open>\<open>process_photo\<close>: the metadata record\<close>

text \<open>
  The dictionary literal of lines 103 to 123, its values in the order Python evaluates
  them. \<open>info['photo']\<close> has no effect, so it is read once.
\<close>

definition photo_metadata :: "env \<Rightarrow> string \<Rightarrow> json \<Rightarrow> (string \<times> json) list res" where
  "photo_metadata E photo_id info =
     bindR (subscr info ''photo'') (\<lambda>p.
     bindR (get_content p ''title'' (JStr [])) (\<lambda>title.
     bindR (get_content p ''description'' (JStr [])) (\<lambda>description.
     bindR (dict_get p ''dateuploaded'' (JStr [])) (\<lambda>date_uploaded.
     bindR (bindR (dict_get p ''dateuploaded'' JNull) (\<lambda>d.
              if truthy d
              then bindR (dict_get p ''dateuploaded'' (JInt 0)) (\<lambda>d0.
                   bindR (py_int d0) (\<lambda>n.
                   bindR (iso_local E n) (\<lambda>iso. Inr (JStr iso))))
              else Inr JNull)) (\<lambda>date_uploaded_formatted.
     bindR (bindR (dict_get p ''dates'' (JDict [])) (\<lambda>d. dict_get d ''taken'' (JStr []))) (\<lambda>date_taken.
     bindR (bindR (dict_get p ''tags'' (JDict [])) (\<lambda>t.
            bindR (dict_get t ''tag'' (JList [])) (\<lambda>ts.
            bindR (py_iter ts) (mapR (\<lambda>tag. subscr tag ''raw''))))) (\<lambda>tags.
     bindR (bindR (dict_get p ''views'' (JInt 0)) py_int) (\<lambda>views.
     bindR (dict_get p ''owner'' (JDict [])) (\<lambda>owner.
     bindR (bindR (dict_get p ''urls'' (JDict [])) (\<lambda>u. dict_get u ''url'' (JList []))) (\<lambda>urls.
     bindR (dict_get p ''media'' (JStr ''photo'')) (\<lambda>media.
     bindR (bindR (dict_get p ''views'' (JInt 0)) py_int) (\<lambda>stats_views.
     bindR (bindR (get_content p ''comments'' (JInt 0)) py_int) (\<lambda>stats_comments.
     bindR (bindR (dict_get p ''isfavorite'' (JInt 0)) py_int) (\<lambda>stats_favorites.
     Inr [
       (''id'', JStr photo_id),
       (''title'', title),
       (''description'', description),
       (''date_uploaded'', date_uploaded),
       (''date_uploaded_formatted'', date_uploaded_formatted),
       (''date_taken'', date_taken),
       (''tags'', JList tags),
       (''views'', JInt views),
       (''owner'', owner),
       (''urls'', urls),
       (''location'', JNull),
       (''media'', media),
       (''stats'', JDict [
          (''views'', JInt stats_views),
          (''comments'', JInt stats_comments),
          (''favorites'', JInt stats_favorites)])]))))))))))))))"

text \<open>Lines 131 to 140: the location to store, if the geo data has one.\<close>

definition photo_location :: "json \<Rightarrow> json option res" where
  "photo_location geo_data =
     bindR (if truthy geo_data then py_in ''photo'' geo_data else Inr False) (\<lambda>has_photo.
     if has_photo then
       bindR (bindR (subscr geo_data ''photo'') (\<lambda>g. subscr g ''location'')) (\<lambda>loc.
       bindR (dict_get loc ''latitude'' JNull) (\<lambda>latitude.
       bindR (dict_get loc ''longitude'' JNull) (\<lambda>longitude.
       bindR (dict_get loc ''accuracy'' JNull) (\<lambda>accuracy.
       bindR (dict_get loc ''locality'' (JDict [])) (\<lambda>locality.
       bindR (dict_get loc ''county'' (JDict [])) (\<lambda>county.
       bindR (dict_get loc ''region'' (JDict [])) (\<lambda>region.
       bindR (dict_get loc ''country'' (JDict [])) (\<lambda>country.
       Inr (Some (JDict [
         (''latitude'', latitude), (''longitude'', longitude), (''accuracy'', accuracy),
         (''locality'', locality), (''county'', county), (''region'', region),
         (''country'', country)]))))))))))
     else Inr None)"

text \<open>Lines 144 to 154: the albums of the photo.\<close>

definition album_entry :: "json \<Rightarrow> json res" where
  "album_entry photoset =
     bindR (dict_get photoset ''id'' JNull) (\<lambda>a.
     bindR (dict_get photoset ''title'' JNull) (\<lambda>b.
     bindR (dict_get photoset ''primary'' JNull) (\<lambda>c.
     bindR (dict_get photoset ''secret'' JNull) (\<lambda>d.
     bindR (dict_get photoset ''server'' JNull) (\<lambda>e.
     bindR (dict_get photoset ''farm'' JNull) (\<lambda>f.
     Inr (JDict [(''id'', a), (''title'', b), (''primary'', c),
                 (''secret'', d), (''server'', e), (''farm'', f)])))))))"

definition photo_albums :: "json \<Rightarrow> json list res" where
  "photo_albums contexts =
     bindR (py_in ''set'' contexts) (\<lambda>has_set.
     if has_set
     then bindR (subscr contexts ''set'') (\<lambda>sets. bindR (py_iter sets) (mapR album_entry))
     else Inr [])"

text \<open>\<open>d[k] = v\<close> on the dictionary under construction.\<close>

definition dict_set :: "string \<Rightarrow> json \<Rightarrow> (string \<times> json) list \<Rightarrow> (string \<times> json) list" where
  "dict_set k v d = AList.update k v d"

text \<open>Lines 100 to 161: fetch the info, merge the record, save \<open>metadata.json\<close>.\<close>

definition stage_metadata :: "env \<Rightarrow> json \<Rightarrow> string \<Rightarrow> string \<Rightarrow> bool \<Rightarrow> (json \<times> (string \<times> json) list) io" where
  "stage_metadata E photo photo_id photo_dir is_favorite =
     bindIO (get_photo_info E photo_id) (\<lambda>info.
     bindIO (liftR (photo_metadata E photo_id info)) (\<lambda>metadata0.
     bindIO (if is_favorite
             then bindIO (liftR (dict_get photo ''ownername'' (JStr [])))
                    (\<lambda>n. returnIO (dict_set ''owner_name'' n metadata0))
             else returnIO metadata0) (\<lambda>metadata1.
     bindIO (get_photo_geo E photo_id) (\<lambda>geo_data.
     bindIO (liftR (photo_location geo_data)) (\<lambda>location.
     bindIO (returnIO (case location of None \<Rightarrow> metadata1
                                      | Some loc \<Rightarrow> dict_set ''location'' loc metadata1)) (\<lambda>metadata2.
     bindIO (get_photo_contexts E photo_id) (\<lambda>contexts.
     bindIO (liftR (photo_albums contexts)) (\<lambda>albums.
     bindIO (returnIO (dict_set ''albums'' (JList albums) metadata2)) (\<lambda>metadata.
     bindIO (save_json E (JDict metadata) (path_join photo_dir ''metadata.json'')) (\<lambda>_.
     returnIO (info, metadata)))))))))))"

subsection \<open>\<open>process_photo\<close>: comments, favourites, EXIF\<close>

text \<open>Lines 167 to 185, the body of the loop over the comments.\<close>

definition comment_obj :: "env \<Rightarrow> json \<Rightarrow> json io" where
  "comment_obj E comment =
     bindIO (liftR (dict_get comment ''author'' JNull)) (\<lambda>author_id.
     bindIO (liftR (dict_get comment ''id'' JNull)) (\<lambda>cid.
     bindIO (liftR (dict_get comment ''authorname'' JNull)) (\<lambda>authorname.
     bindIO (liftR (dict_get comment ''datecreate'' JNull)) (\<lambda>datecreate.
     bindIO (liftR (dict_get comment ''permalink'' JNull)) (\<lambda>permalink.
     bindIO (liftR (dict_get comment ''_content'' (JStr []))) (\<lambda>text.
     bindIO (returnIO [(''id'', cid), (''author'', author_id), (''author_name'', authorname),
                       (''date_created'', datecreate), (''permalink'', permalink), (''text'', text)]) (\<lambda>obj.
     if truthy author_id then
       bindIO (get_cached_user_info E author_id) (\<lambda>user_info.
       bindIO (liftR (subscr user_info ''avatar_url'')) (\<lambda>avatar.
       bindIO (liftR (subscr user_info ''is_pro'')) (\<lambda>pro.
       bindIO (liftR (subscr user_info ''display_name'')) (\<lambda>display.
       returnIO (JDict (dict_set ''author_display_name'' display
                       (dict_set ''author_is_pro'' pro
                       (dict_set ''author_avatar_url'' avatar obj))))))))
     else returnIO (JDict obj))))))))"

fun mapIO :: "('a \<Rightarrow> 'b io) \<Rightarrow> 'a list \<Rightarrow> 'b list io" where
  "mapIO f [] = returnIO []"
| "mapIO f (x # xs) = bindIO (f x) (\<lambda>y. bindIO (mapIO f xs) (\<lambda>ys. returnIO (y # ys)))"

definition stage_comments :: "env \<Rightarrow> string \<Rightarrow> string \<Rightarrow> unit io" where
  "stage_comments E photo_id photo_dir =
     bindIO (get_photo_comments E photo_id) (\<lambda>comments_data.
     bindIO (liftR (bindR (py_in ''comments'' comments_data) (\<lambda>a.
                    if a then bindR (subscr comments_data ''comments'') (py_in ''comment'')
                    else Inr False))) (\<lambda>has.
     bindIO (if has
             then bindIO (liftR (bindR (bindR (subscr comments_data ''comments'')
                                         (\<lambda>c. subscr c ''comment'')) py_iter))
                    (mapIO (comment_obj E))
             else returnIO []) (\<lambda>comments.
     save_json E (JList comments) (path_join photo_dir ''comments.json''))))"

text \<open>Lines 192 to 209, the body of the loop over the favouriting users.\<close>

definition fav_obj :: "env \<Rightarrow> json \<Rightarrow> json io" where
  "fav_obj E person =
     bindIO (liftR (dict_get person ''nsid'' JNull)) (\<lambda>nsid.
     bindIO (liftR (dict_get person ''username'' JNull)) (\<lambda>username.
     bindIO (liftR (dict_get person ''favedate'' JNull)) (\<lambda>favedate.
     bindIO (returnIO [(''nsid'', nsid), (''username'', username), (''favedate'', favedate)]) (\<lambda>obj.
     if truthy nsid then
       bindIO (get_cached_user_info E nsid) (\<lambda>user_info.
       bindIO (liftR (subscr user_info ''display_name'')) (\<lambda>display.
       bindIO (liftR (subscr user_info ''realname'')) (\<lambda>realname.
       bindIO (liftR (subscr user_info ''avatar_url'')) (\<lambda>avatar.
       bindIO (liftR (subscr user_info ''is_pro'')) (\<lambda>pro.
       bindIO (liftR (subscr user_info ''profile_url'')) (\<lambda>profile.
       returnIO (JDict (dict_set ''profile_url'' profile
                       (dict_set ''is_pro'' pro
                       (dict_set ''avatar_url'' avatar
                       (dict_set ''realname'' realname
                       (dict_set ''display_name'' display obj))))))))))))
     else returnIO (JDict obj)))))"

definition stage_favorites :: "env \<Rightarrow> string \<Rightarrow> string \<Rightarrow> unit io" where
  "stage_favorites E photo_id photo_dir =
     bindIO (get_photo_favorites E photo_id) (\<lambda>faves_data.
     bindIO (liftR (bindR (py_in ''photo'' faves_data) (\<lambda>a.
                    if a then bindR (subscr faves_data ''photo'') (py_in ''person'')
                    else Inr False))) (\<lambda>has.
     bindIO (if has
             then bindIO (liftR (bindR (bindR (subscr faves_data ''photo'')
                                         (\<lambda>c. subscr c ''person'')) py_iter))
                    (mapIO (fav_obj E))
             else returnIO []) (\<lambda>favorites.
     save_json E (JList favorites) (path_join photo_dir ''favorites.json''))))"

definition exif_item :: "json \<Rightarrow> json res" where
  "exif_item item =
     bindR (dict_get item ''tag'' JNull) (\<lambda>tag.
     bindR (dict_get item ''label'' JNull) (\<lambda>label.
     bindR (get_content item ''raw'' (JStr [])) (\<lambda>raw.
     Inr (JDict [(''tag'', tag), (''label'', label), (''raw'', raw)]))))"

definition stage_exif :: "env \<Rightarrow> string \<Rightarrow> string \<Rightarrow> unit io" where
  "stage_exif E photo_id photo_dir =
     bindIO (get_photo_exif E photo_id) (\<lambda>exif_data.
     bindIO (liftR (bindR (py_in ''photo'' exif_data) (\<lambda>a.
                    if a then bindR (subscr exif_data ''photo'') (py_in ''exif'')
                    else Inr False))) (\<lambda>has.
     bindIO (liftR (if has
                    then bindR (bindR (bindR (subscr exif_data ''photo'')
                                        (\<lambda>c. subscr c ''exif'')) py_iter) (mapR exif_item)
                    else Inr [])) (\<lambda>exif.
     save_json E (JList exif) (path_join photo_dir ''exif.json''))))"

subsection \<open>\<open>process_photo\<close>: sizes and the binary\<close>

text \<open>
  \<open>sorted(xs, key=key, reverse=True)\<close>: the keys of all elements are computed first, in
  order; the sort is stable, also when reversed.
\<close>

definition sorted_desc :: "(json \<Rightarrow> int res) \<Rightarrow> json list \<Rightarrow> json list res" where
  "sorted_desc key xs =
     bindR (mapR key xs) (\<lambda>ks. Inr (map snd (sort_key (\<lambda>kx. - fst kx) (zip ks xs))))"

text \<open>The two sort keys: \<open>int(s.get('width') or 0)\<close> for a video, \<open>int(s.get('width', 0))\<close> for a photo.\<close>

definition video_width :: "json \<Rightarrow> int res" where
  "video_width s = bindR (dict_get s ''width'' JNull) (\<lambda>w. py_int (if truthy w then w else JInt 0))"

definition photo_width :: "json \<Rightarrow> int res" where
  "photo_width s = bindR (dict_get s ''width'' (JInt 0)) py_int"

text \<open>\<open>sizes['sizes']['size']\<close>.\<close>

definition size_list :: "json \<Rightarrow> json res" where
  "size_list sizes = bindR (subscr sizes ''sizes'') (\<lambda>s. subscr s ''size'')"

text \<open>Lines 232 to 235: the photo page URLs of a video.\<close>

fun photopage_urls :: "json list \<Rightarrow> json list res" where
  "photopage_urls [] = Inr []"
| "photopage_urls (url # rest) =
     bindR (dict_get url ''type'' JNull) (\<lambda>t.
     if t = JStr ''photopage''
     then bindR (dict_get url ''_content'' JNull) (\<lambda>c.
          bindR (photopage_urls rest) (\<lambda>cs. Inr (c # cs)))
     else photopage_urls rest)"

definition video_urls_of :: "json \<Rightarrow> json list res" where
  "video_urls_of info =
     bindR (subscr info ''photo'') (\<lambda>p.
     bindR (bindR (py_in ''urls'' p) (\<lambda>a.
            if a then bindR (subscr p ''urls'') (py_in ''url'') else Inr False)) (\<lambda>has.
     if has
     then bindR (bindR (bindR (subscr p ''urls'') (\<lambda>u. subscr u ''url'')) py_iter) photopage_urls
     else Inr []))"

text \<open>Lines 228 to 268, the video branch: it gives the metadata dictionary back, updated in memory.\<close>

definition video_branch :: "env \<Rightarrow> string \<Rightarrow> string \<Rightarrow> json \<Rightarrow> (string \<times> json) list \<Rightarrow> (string \<times> json) list io" where
  "video_branch E photo_id photo_dir info metadata =
     bindIO (emit (Print [Lit ''    This is a video - attempting to download''])) (\<lambda>_.
     bindIO (liftR (video_urls_of info)) (\<lambda>video_urls.
     bindIO (get_photo_sizes E photo_id) (\<lambda>sizes.
     bindIO (liftR (size_list sizes)) (\<lambda>all_sizes.
     bindIO (if truthy all_sizes
             then bindIO (liftR (bindR (py_iter all_sizes) (sorted_desc video_width))) (\<lambda>sorted_sizes.
                  case sorted_sizes of
                    [] \<Rightarrow> returnIO ()
                  | thumb # _ \<Rightarrow>
                      bindIO (liftR (subscr thumb ''source'')) (\<lambda>thumb_url.
                      bindIO (download_photo E thumb_url (path_join photo_dir ''poster.jpg'')) (\<lambda>ok.
                      if ok then emit (Print [Lit ''    Downloaded video poster frame''])
                      else returnIO ())))
             else returnIO ()) (\<lambda>_.
     bindIO (save_json E (JDict [
               (''is_video'', JBool True),
               (''video_urls'', JList video_urls),
               (''note'', JStr ''Videos must be downloaded manually from Flickr''),
               (''all_sizes'', all_sizes)]) (path_join photo_dir ''sizes.json'')) (\<lambda>_.
     returnIO (dict_set ''video_info'' (JDict [
               (''download_note'', JStr ''Video file must be downloaded manually from Flickr''),
               (''flickr_urls'', JList video_urls)]) metadata)))))))"

text \<open>Lines 275 to 278: the first size labelled \<open>Original\<close>, or \<open>None\<close>.\<close>

fun find_original :: "json list \<Rightarrow> json res" where
  "find_original [] = Inr JNull"
| "find_original (sz # rest) =
     bindR (subscr sz ''label'') (\<lambda>label.
     if label = JStr ''Original'' then Inr sz else find_original rest)"

text \<open>Lines 272 to 287: the size to download, or \<open>None\<close>.\<close>

definition select_original :: "json \<Rightarrow> json res" where
  "select_original all_sizes =
     bindR (bindR (py_iter all_sizes) find_original) (\<lambda>original.
     if \<not> truthy original \<and> truthy all_sizes
     then bindR (bindR (py_iter all_sizes) (sorted_desc photo_width)) (\<lambda>sorted_sizes.
          Inr (case sorted_sizes of [] \<Rightarrow> JNull | s # _ \<Rightarrow> s))
     else Inr original)"

text \<open>Lines 292 to 294: the extension of the file \<open>original.ext\<close>.\<close>

definition file_ext :: "string \<Rightarrow> string" where
  "file_ext photo_url =
     (let ext = split_first (CHR ''?'') (split_last (CHR ''.'') photo_url)
      in if ext \<notin> set [''jpg'', ''jpeg'', ''png'', ''gif''] then ''jpg'' else ext)"

text \<open>Lines 271 to 304, the branch of a photo that is not a video.\<close>

definition photo_branch :: "env \<Rightarrow> string \<Rightarrow> string \<Rightarrow> unit io" where
  "photo_branch E photo_id photo_dir =
     bindIO (get_photo_sizes E photo_id) (\<lambda>sizes.
     bindIO (liftR (size_list sizes)) (\<lambda>all_sizes.
     bindIO (liftR (select_original all_sizes)) (\<lambda>original.
     if truthy original then
       bindIO (liftR (subscr original ''source'')) (\<lambda>src.
       case src of
         JStr photo_url \<Rightarrow>
           bindIO (download_photo E (JStr photo_url)
                     (path_join photo_dir (''original.'' @ file_ext photo_url))) (\<lambda>ok.
           bindIO (if ok then emit (Print [Lit ''    Downloaded photo'']) else returnIO ()) (\<lambda>_.
           save_json E (JDict [(''original'', original), (''all_sizes'', all_sizes)])
             (path_join photo_dir ''sizes.json'')))
       | _ \<Rightarrow> raiseIO AttributeError)
     else returnIO ())))"

text \<open>Lines 225 to 304.\<close>

definition stage_media :: "env \<Rightarrow> string \<Rightarrow> string \<Rightarrow> json \<Rightarrow> (string \<times> json) list \<Rightarrow> (string \<times> json) list io" where
  "stage_media E photo_id photo_dir info metadata =
     bindIO (liftR (bindR (subscr info ''photo'') (\<lambda>p. dict_get p ''media'' (JStr ''photo'')))) (\<lambda>media.
     if media = JStr ''video''
     then video_branch E photo_id photo_dir info metadata
     else bindIO (photo_branch E photo_id photo_dir) (\<lambda>_. returnIO metadata))"

text \<open>Lines 307 and 308: the completion marker.\<close>

definition mark_complete :: "env \<Rightarrow> string \<Rightarrow> unit io" where
  "mark_complete E photo_dir =
     write_file E (path_join photo_dir ''complete.flag'') (\<lambda>t. Text (now_iso E t))"

subsection \<open>\<open>process_photo\<close>\<close>

text \<open>Lines 97 to 222: the record files, giving the info and the metadata dictionary.\<close>

definition archive_records :: "env \<Rightarrow> json \<Rightarrow> string \<Rightarrow> string \<Rightarrow> bool \<Rightarrow> (json \<times> (string \<times> json) list) io" where
  "archive_records E photo photo_id photo_dir is_favorite =
     bindIO (emit (Print [Lit ''  Processing photo '', Val (JStr photo_id), Lit ''...''])) (\<lambda>_.
     bindIO (stage_metadata E photo photo_id photo_dir is_favorite) (\<lambda>im.
     bindIO (stage_comments E photo_id photo_dir) (\<lambda>_.
     bindIO (stage_favorites E photo_id photo_dir) (\<lambda>_.
     bindIO (stage_exif E photo_id photo_dir) (\<lambda>_.
     returnIO im)))))"

definition process_photo :: "env \<Rightarrow> json \<Rightarrow> string \<Rightarrow> bool \<Rightarrow> unit io" where
  "process_photo E photo base_dir is_favorite =
     bindIO (liftR (subscr photo ''id'')) (\<lambda>id_value.
     bindIO (emit (Sleep RATE_DELAY)) (\<lambda>_.
     case id_value of
       JStr photo_id \<Rightarrow> (\<lambda>w.
         let photo_dir = path_join base_dir photo_id in
         if path_exists w (path_join photo_dir ''complete.flag'')
         then emit (Print [Lit ''  Skipping '', Val (JStr photo_id), Lit '' - already processed'']) w
         else
           bindIO (archive_records E photo photo_id photo_dir is_favorite) (\<lambda>im.
           bindIO (stage_media E photo_id photo_dir (fst im) (snd im)) (\<lambda>metadata.
           bindIO (mark_complete E photo_dir) (\<lambda>_.
           emit (Sleep 500)))) w)
     | _ \<Rightarrow> raiseIO TypeError))"

subsection \<open>\<open>download_my_photos\<close>\<close>

text \<open>\<open>len(x)\<close>, and \<open>page >= x\<close> for the integer \<open>page\<close>.\<close>

definition py_len :: "json \<Rightarrow> int res" where
  "py_len v =
     (case v of
        JList xs \<Rightarrow> Inr (int (length xs))
      | JDict kvs \<Rightarrow> Inr (int (length kvs))
      | JStr s \<Rightarrow> Inr (int (length s))
      | _ \<Rightarrow> Inl TypeError)"

definition py_ge :: "int \<Rightarrow> json \<Rightarrow> bool res" where
  "py_ge page v =
     (case v of
        JInt n \<Rightarrow> Inr (page \<ge> n)
      | JBool b \<Rightarrow> Inr (page \<ge> (if b then 1 else 0))
      | _ \<Rightarrow> Inl TypeError)"

text \<open>\<open>set(os.listdir(d))\<close>, as the test whether a name is in it.\<close>

definition listdir :: "string \<Rightarrow> (string \<Rightarrow> bool) io" where
  "listdir d w =
     (if d \<in> dirs w
      then (Inr (\<lambda>n. n \<noteq> [] \<and> CHR ''/'' \<notin> set n \<and> path_exists w (path_join d n)), w)
      else (Inl (OSError ''FileNotFoundError''), w))"

text \<open>\<open>photo_id in processed_ids\<close>.\<close>

definition in_processed :: "(string \<Rightarrow> bool) \<Rightarrow> json \<Rightarrow> bool res" where
  "in_processed processed_ids v =
     (case v of
        JStr s \<Rightarrow> Inr (processed_ids s)
      | JList xs \<Rightarrow> Inl TypeError
      | JDict kvs \<Rightarrow> Inl TypeError
      | _ \<Rightarrow> Inr False)"

text \<open>Lines 329 to 335: the loop over the photos of one page, \<open>i\<close> counting from 1.\<close>

fun photos_loop :: "env \<Rightarrow> (string \<Rightarrow> bool) \<Rightarrow> int \<Rightarrow> json \<Rightarrow> int \<Rightarrow> json list \<Rightarrow> unit io" where
  "photos_loop E processed_ids total_processed photos_data i [] = returnIO ()"
| "photos_loop E processed_ids total_processed photos_data i (photo # rest) =
     bindIO (liftR (bindR (subscr photo ''id'') (in_processed processed_ids))) (\<lambda>skip.
     if skip then photos_loop E processed_ids total_processed photos_data (i + 1) rest
     else
       bindIO (liftR (bindR (subscr photos_data ''photos'') (\<lambda>p. subscr p ''total''))) (\<lambda>total.
       bindIO (emit (Print [Lit (CHR 0x0A # ''[''), Val (JInt (total_processed + i)),
                            Lit ''/'', Val total, Lit '']''])) (\<lambda>_.
       bindIO (process_photo E photo PHOTOS_DIR False) (\<lambda>_.
       photos_loop E processed_ids total_processed photos_data (i + 1) rest))))"

text \<open>
  Lines 319 to 341, \<open>while True\<close>. The service decides how many pages there are, so the
  loop carries fuel: \<open>None\<close> is a run that has not left the loop when the fuel is
  used up, \<open>Some total_processed\<close> a run that left it.
\<close>

fun pages_loop :: "nat \<Rightarrow> env \<Rightarrow> (string \<Rightarrow> bool) \<Rightarrow> int \<Rightarrow> int \<Rightarrow> int option io" where
  "pages_loop 0 E processed_ids page total_processed = returnIO None"
| "pages_loop (Suc fuel) E processed_ids page total_processed =
     bindIO (emit (Print [Lit (CHR 0x0A # ''Fetching page ''), Val (JInt page), Lit ''...''])) (\<lambda>_.
     bindIO (get_photos E (USER_ID E) 100 page) (\<lambda>photos_data.
     bindIO (liftR (bindR (subscr photos_data ''photos'') (\<lambda>p. subscr p ''photo''))) (\<lambda>photos.
     if \<not> truthy photos then returnIO (Some total_processed)
     else
       bindIO (liftR (py_len photos)) (\<lambda>n.
       bindIO (emit (Print [Lit ''Found '', Val (JInt n), Lit '' photos on page '', Val (JInt page)])) (\<lambda>_.
       bindIO (liftR (py_iter photos)) (\<lambda>ps.
       bindIO (photos_loop E processed_ids total_processed photos_data 1 ps) (\<lambda>_.
       bindIO (liftR (bindR (bindR (subscr photos_data ''photos'') (\<lambda>p. subscr p ''pages''))
                        (py_ge page))) (\<lambda>last_page.
       if last_page then returnIO (Some (total_processed + n))
       else pages_loop fuel E processed_ids (page + 1) (total_processed + n)))))))))"

definition download_my_photos :: "nat \<Rightarrow> env \<Rightarrow> int option io" where
  "download_my_photos fuel E =
     bindIO (emit (Print [Lit (CHR 0x0A # ''Downloading photos for user ''), Val (JStr (USER_ID E))])) (\<lambda>_.
     bindIO (listdir PHOTOS_DIR) (\<lambda>processed_ids.
     bindIO (pages_loop fuel E processed_ids 1 0) (\<lambda>r.
     case r of
       None \<Rightarrow> returnIO None
     | Some total_processed \<Rightarrow>
         bindIO (emit (Print [Lit (CHR 0x0A # ''Completed downloading ''),
                              Val (JInt total_processed), Lit '' photos'']))
           (\<lambda>_. returnIO (Some total_processed)))))"

section \<open>Notions used by the properties\<close>

text \<open>
  A width that \<open>int()\<close> accepts as an integer or an integer-valued string; a size entry
  whose width, when present, is one; a size entry that has a label; a size entry
  labelled \<open>Original\<close>.
\<close>

definition int_like :: "json \<Rightarrow> bool" where
  "int_like w = (case w of JInt n \<Rightarrow> True | JStr s \<Rightarrow> parse_int s \<noteq> None | _ \<Rightarrow> False)"

definition wf_width :: "json \<Rightarrow> bool" where
  "wf_width s =
     (case s of
        JDict kvs \<Rightarrow> (case map_of kvs ''width'' of None \<Rightarrow> True | Some w \<Rightarrow> int_like w)
      | _ \<Rightarrow> False)"

text \<open>A size entry whose width, when present, is false in a condition or accepted by \<open>int()\<close>.\<close>

definition video_wf_width :: "json \<Rightarrow> bool" where
  "video_wf_width s =
     (case s of
        JDict kvs \<Rightarrow> (case map_of kvs ''width'' of None \<Rightarrow> True | Some w \<Rightarrow> \<not> truthy w \<or> int_like w)
      | _ \<Rightarrow> False)"

definition has_label :: "json \<Rightarrow> bool" where
  "has_label s = (case subscr s ''label'' of Inr l \<Rightarrow> True | Inl e \<Rightarrow> False)"

definition is_Original :: "json \<Rightarrow> bool" where
  "is_Original s = (subscr s ''label'' = Inr (JStr ''Original''))"

text \<open>
  The declared width of a size entry, as the specification words it: the number that
  the entry gives under \<open>width\<close>, as an integer or in decimal digits, and 0 for an
  entry that gives none.
\<close>

definition declared_width :: "json \<Rightarrow> int" where
  "declared_width s =
     (case s of
        JDict kvs \<Rightarrow>
          (case map_of kvs ''width'' of
             None \<Rightarrow> 0
           | Some w \<Rightarrow>
               (case w of
                  JInt n \<Rightarrow> n
                | JStr digits \<Rightarrow> (case parse_int digits of Some n \<Rightarrow> n | None \<Rightarrow> 0)
                | _ \<Rightarrow> 0))
      | _ \<Rightarrow> 0)"

text \<open>
  The extension as the specification words it: taken from the final path segment of
  the URL, the query string stripped first, and \<open>jpg\<close> unless it is one of the four.
\<close>

definition spec_file_ext :: "string \<Rightarrow> string" where
  "spec_file_ext photo_url =
     (let segment = split_last (CHR ''/'') (split_first (CHR ''?'') photo_url);
          ext = (if CHR ''.'' \<in> set segment then split_last (CHR ''.'') segment else [])
      in if ext \<in> set [''jpg'', ''jpeg'', ''png'', ''gif''] then ext else ''jpg'')"

text \<open>
  \<open>only P m\<close>: whatever the world, the action \<open>m\<close> appends events to the trace that all
  satisfy \<open>P\<close>, and it changes a file only where it has an event \<open>Wrote\<close> for it.
  \<open>yields es m\<close>: where \<open>m\<close> returns normally, the events it appended have \<open>es\<close> as a
  subsequence, in this order.
\<close>

definition only :: "(event \<Rightarrow> bool) \<Rightarrow> 'a io \<Rightarrow> bool" where
  "only P m = (\<forall>w. \<exists>evs. trace (snd (m w)) = trace w @ evs \<and> list_all P evs
                 \<and> (\<forall>p. files (snd (m w)) p \<noteq> files w p \<longrightarrow> Wrote p \<in> set evs))"

definition yields :: "event list \<Rightarrow> 'a io \<Rightarrow> bool" where
  "yields es m = (\<forall>w x w'. m w = (Inr x, w') \<longrightarrow> (\<exists>evs. trace w' = trace w @ evs \<and> subseq es evs))"

text \<open>The completion marker of a photo.\<close>

definition marker_of :: "string \<Rightarrow> string \<Rightarrow> string" where
  "marker_of base_dir photo_id = path_join (path_join base_dir photo_id) ''complete.flag''"

text \<open>Lines 97 to 304: all of the unit of one photo that comes before the marker.\<close>

definition before_marker :: "env \<Rightarrow> json \<Rightarrow> string \<Rightarrow> string \<Rightarrow> bool \<Rightarrow> (string \<times> json) list io" where
  "before_marker E photo photo_id d fav =
     bindIO (archive_records E photo photo_id d fav) (\<lambda>im. stage_media E photo_id d (fst im) (snd im))"

subsection \<open>Example worlds\<close>

text \<open>
  An environment whose service answers by \<open>answer\<close> whatever the time, whose disk never
  fails and whose binary downloads fail (the host is offline); and a world with nothing
  on disk.
\<close>

definition quiet_env :: "(request \<Rightarrow> json res) \<Rightarrow> env" where
  "quiet_env answer =
     \<lparr>remote = (\<lambda>t. answer),
      http = (\<lambda>t u. Inl (RequestError ''offline'')),
      mkdir_error = (\<lambda>t p. None), open_error = (\<lambda>t p. None), write_error = (\<lambda>t p. None),
      iso_local = (\<lambda>n. Inr ''1970-01-01T00:00:00''), now_iso = (\<lambda>t. ''2024-01-01T00:00:00''),
      repr = (\<lambda>v. ''?''), USER_ID = ''me''\<rparr>"

definition empty_world :: world where
  "empty_world = \<lparr>files = Map.empty, dirs = {}, user_cache = [], trace = []\<rparr>"

text \<open>A service that knows no photo.\<close>

definition no_photo :: "request \<Rightarrow> json res" where
  "no_photo rq = Inl (FlickrError ''Photo not found'')"

text \<open>
  A service with one video, photo \<open>1\<close>: viewed ten times, not a favourite of the caller,
  favourited by two users, with a photo page URL and no sizes.
\<close>

definition video_answer :: "request \<Rightarrow> json res" where
  "video_answer rq =
     (case rq of
        PhotosGetInfo p \<Rightarrow> Inr (JDict [(''photo'', JDict [
            (''media'', JStr ''video''), (''views'', JStr ''10''), (''isfavorite'', JInt 0),
            (''urls'', JDict [(''url'', JList [JDict [(''type'', JStr ''photopage''),
                (''_content'', JStr ''https://www.flickr.com/photos/me/1/'')]])])])])
      | PhotosGetSizes p \<Rightarrow> Inr (JDict [(''sizes'', JDict [(''size'', JList [])])])
      | PhotosGetFavorites p \<Rightarrow> Inr (JDict [(''photo'', JDict [(''person'', JList [
            JDict [(''nsid'', JStr ''a''), (''username'', JStr ''A'')],
            JDict [(''nsid'', JStr ''b''), (''username'', JStr ''B'')]])])])
      | _ \<Rightarrow> Inl (FlickrError ''Photo not found''))"

text \<open>
  A service that lists photo \<open>1\<close> on one page; the photo is no video, and its sizes have
  no \<open>Original\<close>: the first has the width \<open>None\<close>, the second the width 500.
\<close>

definition bad_width_answer :: "request \<Rightarrow> json res" where
  "bad_width_answer rq =
     (case rq of
        PeopleGetPhotos u n p \<Rightarrow> Inr (JDict [(''photos'', JDict [
            (''photo'', JList [JDict [(''id'', JStr ''1'')]]), (''pages'', JInt 1), (''total'', JInt 1)])])
      | PhotosGetInfo p \<Rightarrow> Inr (JDict [(''photo'', JDict [
            (''media'', JStr ''photo''), (''title'', JDict [(''_content'', JStr ''Sunset'')]),
            (''views'', JInt 3)])])
      | PhotosGetSizes p \<Rightarrow> Inr (JDict [(''sizes'', JDict [(''size'', JList [
            JDict [(''label'', JStr ''Large''), (''width'', JNull),
                   (''source'', JStr ''https://live.staticflickr.com/1/2_b.jpg'')],
            JDict [(''label'', JStr ''Medium''), (''width'', JStr ''500''),
                   (''source'', JStr ''https://live.staticflickr.com/1/2_m.jpg'')]])])])
      | _ \<Rightarrow> Inl (FlickrError ''Photo not found''))"

subsection \<open>The walk over completed photos\<close>

text \<open>
  \<open>listing_only\<close>: an event that is no write, no binary download and no remote call
  other than the listing of a page of the user's photos. \<open>calm w w'\<close>: from \<open>w\<close> to
  \<open>w'\<close> the disk and the user cache are the same and only such events were added.
  \<open>page_completed\<close>: every photo of the page has a string id and its completion marker
  exists. \<open>all_completed\<close>: this holds of every page the service can list.
\<close>

definition listing_only :: "event \<Rightarrow> bool" where
  "listing_only ev =
     (case ev of
        Remote rq \<Rightarrow> (case rq of PeopleGetPhotos u n p \<Rightarrow> True | _ \<Rightarrow> False)
      | HttpGet u \<Rightarrow> False
      | Wrote p \<Rightarrow> False
      | _ \<Rightarrow> True)"

definition calm :: "world \<Rightarrow> world \<Rightarrow> bool" where
  "calm w w' = (files w' = files w \<and> dirs w' = dirs w \<and> user_cache w' = user_cache w
                \<and> (\<exists>evs. trace w' = trace w @ evs \<and> list_all listing_only evs))"

definition page_completed :: "world \<Rightarrow> json list \<Rightarrow> bool" where
  "page_completed w ps =
     (\<forall>photo\<in>set ps. \<exists>pid. subscr photo ''id'' = Inr (JStr pid) \<and> path_exists w (marker_of PHOTOS_DIR pid))"

definition all_completed :: "env \<Rightarrow> world \<Rightarrow> bool" where
  "all_completed E w =
     (\<forall>t page data photos ps.
        remote E t (PeopleGetPhotos (USER_ID E) 100 page) = Inr data
        \<longrightarrow> bindR (subscr data ''photos'') (\<lambda>p. subscr p ''photo'') = Inr photos
        \<longrightarrow> py_iter photos = Inr ps
        \<longrightarrow> page_completed w ps)"

text \<open>A service that lists photo \<open>1\<close> on one page, and a disk where photo \<open>1\<close> is complete.\<close>

definition listing_answer :: "request \<Rightarrow> json res" where
  "listing_answer rq =
     (case rq of
        PeopleGetPhotos u n p \<Rightarrow> Inr (JDict [(''photos'', JDict [
            (''photo'', JList [JDict [(''id'', JStr ''1'')]]), (''pages'', JInt 1), (''total'', JInt 1)])])
      | _ \<Rightarrow> Inl (FlickrError ''Photo not found''))"

definition done_world :: world where
  "done_world =
     \<lparr>files = [marker_of PHOTOS_DIR ''1'' \<mapsto> Text ''2023-12-31T10:00:00''],
      dirs = {DATA_DIR, PHOTOS_DIR, path_join PHOTOS_DIR ''1''},
      user_cache = [], trace = []\<rparr>"

text \<open>A service with one photo that is no video and has no sizes.\<close>

definition plain_answer :: "request \<Rightarrow> json res" where
  "plain_answer rq =
     (case rq of
        PhotosGetInfo p \<Rightarrow> Inr (JDict [(''photo'', JDict [
            (''media'', JStr ''photo''), (''title'', JDict [(''_content'', JStr ''Sunset'')]),
            (''views'', JInt 3)])])
      | PhotosGetSizes p \<Rightarrow> Inr (JDict [(''sizes'', JDict [(''size'', JList [])])])
      | _ \<Rightarrow> Inl (FlickrError ''Photo not found''))"

subsection \<open>Retrying\<close>





section \<open>Properties\<close>

subsection \<open>Results and lists of results\<close>

lemma bindR_Inr [simp]: "bindR (Inr x) f = f x"
  by (simp add: bindR_def)

lemma bindR_Inl [simp]: "bindR (Inl e) f = Inl e"
  by (simp add: bindR_def)

lemma mapR_total: "(\<And>x. x \<in> set xs \<Longrightarrow> f x = Inr (g x)) \<Longrightarrow> mapR f xs = Inr (map g xs)"
  by (induction xs) simp_all

lemma mapR_fails: "x \<in> set xs \<Longrightarrow> f x = Inl e \<Longrightarrow> \<exists>e'. mapR f xs = Inl e'"
proof (induction xs)
  case Nil
  then show ?case by simp
next
  case (Cons y ys)
  show ?case
  proof (cases "f y")
    case (Inl a)
    then show ?thesis by simp
  next
    case (Inr b)
    show ?thesis
    proof (cases "x = y")
      case True
      with Cons.prems Inr show ?thesis by simp
    next
      case False
      with Cons obtain e' where "mapR f ys = Inl e'" by auto
      with Inr show ?thesis by simp
    qed
  qed
qed

lemmas int_simps = parse_int_def strip_def is_space_def parse_nat_def is_digit_def digit_val_def
  max_str_digits_def

lemma photo_width_wf: "wf_width s \<Longrightarrow> photo_width s = Inr (declared_width s)"
  by (auto simp: wf_width_def declared_width_def photo_width_def dict_get_def py_int_def int_like_def
      split: json.splits option.splits)

lemma video_width_wf: "wf_width s \<Longrightarrow> video_width s = Inr (declared_width s)"
  by (auto simp: wf_width_def declared_width_def video_width_def dict_get_def py_int_def int_like_def
      parse_int_def strip_def split: json.splits option.splits)

lemma has_label_truthy: "has_label s \<Longrightarrow> truthy s"
  by (auto simp: has_label_def subscr_def split: json.splits sum.splits option.splits)

lemma is_Original_has_label: "is_Original s \<Longrightarrow> has_label s"
  by (simp add: is_Original_def has_label_def)

lemma find_original_found:
  "list_ex is_Original xs \<Longrightarrow> list_all has_label (takeWhile (\<lambda>s. \<not> is_Original s) xs)
   \<Longrightarrow> \<exists>s. find_original xs = Inr s \<and> find is_Original xs = Some s"
  by (induction xs) (auto simp: has_label_def is_Original_def split: sum.splits)

lemma find_original_none:
  "list_all has_label xs \<Longrightarrow> \<not> list_ex is_Original xs \<Longrightarrow> find_original xs = Inr JNull"
  by (induction xs) (auto simp: has_label_def is_Original_def split: sum.splits)

lemma sort_key_hd_min:
  assumes "xs \<noteq> []"
  shows "\<exists>y ys. sort_key f xs = y # ys \<and> y \<in> set xs \<and> (\<forall>x\<in>set xs. f y \<le> f x)"
proof -
  from assms have ne: "sort_key f xs \<noteq> []"
    by (metis length_0_conv length_sort)
  then obtain y ys where eq: "sort_key f xs = y # ys" by (cases "sort_key f xs") auto
  have "sorted (map f (sort_key f xs))" by (rule sorted_sort_key)
  with eq have "\<forall>x\<in>set ys. f y \<le> f x" by simp
  moreover have "set (y # ys) = set xs" using eq by (metis set_sort)
  ultimately show ?thesis using eq by auto
qed

lemma sorted_desc_hd:
  assumes "xs \<noteq> []" and "\<And>x. x \<in> set xs \<Longrightarrow> key x = Inr (g x)"
  shows "\<exists>s rest. sorted_desc key xs = Inr (s # rest) \<and> s \<in> set xs \<and> (\<forall>t\<in>set xs. g t \<le> g s)"
proof -
  have m: "mapR key xs = Inr (map g xs)" using assms(2) by (rule mapR_total)
  let ?ps = "zip (map g xs) xs"
  have ps: "?ps = map (\<lambda>x. (g x, x)) xs" by (induction xs) simp_all
  have "?ps \<noteq> []" using assms(1) by (simp add: ps)
  from sort_key_hd_min[OF this, of "\<lambda>kx. - fst kx"]
  obtain y ys where y: "sort_key (\<lambda>kx. - fst kx) ?ps = y # ys" "y \<in> set ?ps"
    "\<forall>x\<in>set ?ps. - fst y \<le> - fst x" by blast
  from y(2) obtain s where s: "s \<in> set xs" "y = (g s, s)" by (auto simp: ps)
  have "\<forall>t\<in>set xs. g t \<le> g s"
  proof
    fix t assume "t \<in> set xs"
    then have "(g t, t) \<in> set ?ps" by (auto simp: ps)
    with y(3) s(2) show "g t \<le> g s" by fastforce
  qed
  with m y(1) s show ?thesis by (auto simp: sorted_desc_def)
qed

subsection \<open>Selecting the size to download\<close>

text \<open>
  Claim C6. For a photo that is not a video, with a non-empty list of sizes. When a size
  is labelled \<open>Original\<close>, the selection of \<open>process_photo\<close> is the first such size,
  whatever widths the sizes have (the loop reads the label of the sizes up to that one,
  so these have a label). When none is, the selection is a size of largest declared
  width, a missing width counting as 0; here every size is a dictionary with a label,
  and a width that is present is an integer or an integer-valued string. With no
  \<open>Original\<close> and the widths 800, 1200 and 400, the size of width 1200 is selected.
\<close>

theorem select_original_spec:
  "(list_ex is_Original xs \<and> list_all has_label (takeWhile (\<lambda>s. \<not> is_Original s) xs)
      \<longrightarrow> (\<exists>s. select_original (JList xs) = Inr s \<and> find is_Original xs = Some s \<and> truthy s))
   \<and> (ys \<noteq> [] \<and> \<not> list_ex is_Original ys \<and> list_all has_label ys \<and> list_all wf_width ys
      \<longrightarrow> (\<exists>s. select_original (JList ys) = Inr s \<and> s \<in> set ys \<and> truthy s
             \<and> (\<forall>t\<in>set ys. declared_width t \<le> declared_width s)))
   \<and> select_original (JList [
        JDict [(''label'', JStr ''Medium 800''), (''width'', JInt 800)],
        JDict [(''label'', JStr ''Large''), (''width'', JInt 1200)],
        JDict [(''label'', JStr ''Small 400''), (''width'', JInt 400)]])
      = Inr (JDict [(''label'', JStr ''Large''), (''width'', JInt 1200)])"
proof (intro conjI impI)
  assume a: "list_ex is_Original xs \<and> list_all has_label (takeWhile (\<lambda>s. \<not> is_Original s) xs)"
  with find_original_found[of xs] obtain s where s: "find_original xs = Inr s" "find is_Original xs = Some s"
    by blast
  from s(2) have "is_Original s" by (auto simp: find_Some_iff)
  then have "truthy s" by (intro has_label_truthy is_Original_has_label)
  with s show "\<exists>s. select_original (JList xs) = Inr s \<and> find is_Original xs = Some s \<and> truthy s"
    by (simp add: select_original_def py_iter_def)
next
  assume a: "ys \<noteq> [] \<and> \<not> list_ex is_Original ys \<and> list_all has_label ys \<and> list_all wf_width ys"
  then have none: "find_original ys = Inr JNull" by (intro find_original_none) simp_all
  have w: "\<And>x. x \<in> set ys \<Longrightarrow> photo_width x = Inr (declared_width x)"
    using a by (auto simp: list_all_iff intro: photo_width_wf)
  from sorted_desc_hd[of ys photo_width declared_width] a w
  obtain s rest where s: "sorted_desc photo_width ys = Inr (s # rest)" "s \<in> set ys"
    "\<forall>t\<in>set ys. declared_width t \<le> declared_width s" by blast
  have "truthy s" using s(2) a by (auto simp: list_all_iff intro: has_label_truthy)
  with s none a
  show "\<exists>s. select_original (JList ys) = Inr s \<and> s \<in> set ys \<and> truthy s
             \<and> (\<forall>t\<in>set ys. declared_width t \<le> declared_width s)"
    by (simp add: select_original_def py_iter_def)
next
  show "select_original (JList [
        JDict [(''label'', JStr ''Medium 800''), (''width'', JInt 800)],
        JDict [(''label'', JStr ''Large''), (''width'', JInt 1200)],
        JDict [(''label'', JStr ''Small 400''), (''width'', JInt 400)]])
      = Inr (JDict [(''label'', JStr ''Large''), (''width'', JInt 1200)])"
    by (simp add: select_original_def py_iter_def subscr_def sorted_desc_def photo_width_def
        dict_get_def py_int_def)
qed

text \<open>
  An \<open>Original\<close> of width 640 is selected though the size before it has the width
  \<open>None\<close>. With no \<open>Original\<close>, sizes without a width count as 0: the size of width 500
  is selected between two of them, and among sizes that all lack a width the first is.
\<close>

theorem select_original_spec_witness:
  "select_original (JList
       [JDict [(''label'', JStr ''Large 1600''), (''width'', JNull)],
        JDict [(''label'', JStr ''Original''), (''width'', JStr ''640'')],
        JDict [(''width'', JInt 2048)]])
     = Inr (JDict [(''label'', JStr ''Original''), (''width'', JStr ''640'')])
   \<and> select_original (JList
       [JDict [(''label'', JStr ''Thumbnail'')],
        JDict [(''label'', JStr ''Medium''), (''width'', JStr '' 500 '')],
        JDict [(''label'', JStr ''Square'')]])
     = Inr (JDict [(''label'', JStr ''Medium''), (''width'', JStr '' 500 '')])
   \<and> declared_width (JDict [(''label'', JStr ''Thumbnail'')]) = 0
   \<and> declared_width (JDict [(''label'', JStr ''Medium''), (''width'', JStr '' 500 '')]) = 500"
  using select_original_spec [of
      "[JDict [(''label'', JStr ''Large 1600''), (''width'', JNull)],
        JDict [(''label'', JStr ''Original''), (''width'', JStr ''640'')],
        JDict [(''width'', JInt 2048)]]"
      "[JDict [(''label'', JStr ''Thumbnail'')],
        JDict [(''label'', JStr ''Medium''), (''width'', JStr '' 500 '')],
        JDict [(''label'', JStr ''Square'')]]"]
  by (auto simp: has_label_def wf_width_def int_like_def is_Original_def subscr_def declared_width_def
      int_simps)

subsection \<open>The file extension\<close>

lemma file_ext_in_four: "file_ext u \<in> set [''jpg'', ''jpeg'', ''png'', ''gif'']"
  by (simp add: file_ext_def Let_def)

lemma file_ext_examples:
  "file_ext ''https://live.staticflickr.com/65535/123_abcdef_o.webp?x=1'' = ''jpg''
   \<and> file_ext ''https://live.staticflickr.com/65535/123_o.png'' = ''png''"
  by (simp add: file_ext_def split_first_def split_last_def)

text \<open>
  Claim C7. The extension of the downloaded original is to come from the final path
  segment of the URL, the query string stripped. The code takes what follows the last
  dot of the whole URL and cuts that at the first question mark: for a URL whose query
  string holds a dot it reads the extension out of the query string, and falls back to
  \<open>jpg\<close> where the path says \<open>png\<close>.
\<close>

theorem file_ext_dotted_query:
  "file_ext ''https://live.staticflickr.com/65535/123_o.png?v=1.0'' = ''jpg''
   \<and> spec_file_ext ''https://live.staticflickr.com/65535/123_o.png?v=1.0'' = ''png''"
  by (simp add: file_ext_def spec_file_ext_def split_first_def split_last_def)

subsection \<open>Events and files of the actions\<close>

lemma onlyI:
  "(\<And>w. \<exists>evs. trace (snd (m w)) = trace w @ evs \<and> list_all P evs
        \<and> (\<forall>p. files (snd (m w)) p \<noteq> files w p \<longrightarrow> Wrote p \<in> set evs)) \<Longrightarrow> only P m"
  by (simp add: only_def)

lemma onlyD:
  "only P m \<Longrightarrow> m w = (r, w') \<Longrightarrow> \<exists>evs. trace w' = trace w @ evs \<and> list_all P evs
        \<and> (\<forall>p. files w' p \<noteq> files w p \<longrightarrow> Wrote p \<in> set evs)"
  by (auto simp: only_def dest: spec[of _ w])

lemma only_mono: "only P m \<Longrightarrow> (\<And>ev. P ev \<Longrightarrow> Q ev) \<Longrightarrow> only Q m"
  unfolding only_def list_all_iff by blast

lemma only_returnIO: "only P (returnIO x)"
  by (simp add: only_def returnIO_def)

lemma only_raiseIO: "only P (raiseIO e)"
  by (simp add: only_def raiseIO_def)

lemma only_liftR: "only P (liftR r)"
  by (simp add: only_def liftR_def)

lemma only_emit: "P ev \<Longrightarrow> only P (emit ev)"
  by (simp add: only_def emit_def)

lemma only_flickr_call: "P (Remote rq) \<Longrightarrow> only P (flickr_call E rq)"
  by (simp add: only_def flickr_call_def)

lemma only_bind:
  assumes "only P m" and "\<And>x. only P (f x)"
  shows "only P (bindIO m f)"
proof (rule onlyI)
  fix w
  obtain r w1 where m: "m w = (r, w1)" by (cases "m w")
  from onlyD[OF assms(1) m] obtain e1 where e1: "trace w1 = trace w @ e1" "list_all P e1"
    "\<forall>p. files w1 p \<noteq> files w p \<longrightarrow> Wrote p \<in> set e1" by blast
  show "\<exists>evs. trace (snd (bindIO m f w)) = trace w @ evs \<and> list_all P evs
        \<and> (\<forall>p. files (snd (bindIO m f w)) p \<noteq> files w p \<longrightarrow> Wrote p \<in> set evs)"
  proof (cases r)
    case (Inl e)
    with m e1 show ?thesis by (auto simp: bindIO_def)
  next
    case (Inr x)
    obtain r2 w2 where f: "f x w1 = (r2, w2)" by (cases "f x w1")
    from onlyD[OF assms(2) f] obtain e2 where e2: "trace w2 = trace w1 @ e2" "list_all P e2"
      "\<forall>p. files w2 p \<noteq> files w1 p \<longrightarrow> Wrote p \<in> set e2" by blast
    have "trace w2 = trace w @ (e1 @ e2)" using e1 e2 by simp
    moreover have "list_all P (e1 @ e2)" using e1 e2 by simp
    moreover have "\<forall>p. files w2 p \<noteq> files w p \<longrightarrow> Wrote p \<in> set (e1 @ e2)"
      using e1(3) e2(3) by (metis Un_iff set_append)
    ultimately show ?thesis using m Inr f by (auto simp: bindIO_def)
  qed
qed

lemma only_or_default:
  assumes "only P m"
  shows "only P (or_default m d)"
proof (rule onlyI)
  fix w
  obtain r w1 where m: "m w = (r, w1)" by (cases "m w")
  from onlyD[OF assms m] m
  show "\<exists>evs. trace (snd (or_default m d w)) = trace w @ evs \<and> list_all P evs
        \<and> (\<forall>p. files (snd (or_default m d w)) p \<noteq> files w p \<longrightarrow> Wrote p \<in> set evs)"
    by (cases r) (simp_all add: or_default_def)
qed

lemma only_if: "only P a \<Longrightarrow> only P b \<Longrightarrow> only P (if c then a else b)"
  by simp

lemma only_makedirs: "only P (makedirs E d)"
  by (rule onlyI) (simp add: makedirs_def split: option.splits)

lemma only_write_file: "P (Wrote p) \<Longrightarrow> only P (write_file E p mk)"
  by (rule onlyI) (simp add: write_file_def Let_def split: option.splits)

lemma only_save_json: "P (Wrote p) \<Longrightarrow> only P (save_json E data p)"
  unfolding save_json_def by (intro only_bind only_makedirs only_write_file)

lemma only_http_get: "(\<And>u. P (HttpGet u)) \<Longrightarrow> only P (http_get E url)"
  by (rule onlyI) (simp add: http_get_def split: json.splits)

lemma only_catch:
  assumes "only P m" and "\<And>e. only P (h e)"
  shows "only P (\<lambda>w. case m w of (Inr u, w') \<Rightarrow> (Inr True, w')
                    | (Inl e, w') \<Rightarrow> if is_Exception e then h e w' else (Inl e, w'))"
proof (rule onlyI)
  fix w
  obtain r w1 where m: "m w = (r, w1)" by (cases "m w")
  from onlyD[OF assms(1) m] obtain e1 where e1: "trace w1 = trace w @ e1" "list_all P e1"
    "\<forall>p. files w1 p \<noteq> files w p \<longrightarrow> Wrote p \<in> set e1" by blast
  let ?k = "\<lambda>w. case m w of (Inr u, w') \<Rightarrow> (Inr True, w')
                    | (Inl e, w') \<Rightarrow> if is_Exception e then h e w' else (Inl e, w')"
  show "\<exists>evs. trace (snd (?k w)) = trace w @ evs \<and> list_all P evs
        \<and> (\<forall>p. files (snd (?k w)) p \<noteq> files w p \<longrightarrow> Wrote p \<in> set evs)"
  proof (cases r)
    case (Inr x)
    with m e1 show ?thesis by auto
  next
    case (Inl e)
    show ?thesis
    proof (cases "is_Exception e")
      case False
      with m Inl e1 show ?thesis by auto
    next
      case True
      obtain r2 w2 where f: "h e w1 = (r2, w2)" by (cases "h e w1")
      from onlyD[OF assms(2) f] obtain e2 where e2: "trace w2 = trace w1 @ e2" "list_all P e2"
        "\<forall>p. files w2 p \<noteq> files w1 p \<longrightarrow> Wrote p \<in> set e2" by blast
      have "trace w2 = trace w @ (e1 @ e2)" using e1 e2 by simp
      moreover have "list_all P (e1 @ e2)" using e1 e2 by simp
      moreover have "\<forall>p. files w2 p \<noteq> files w p \<longrightarrow> Wrote p \<in> set (e1 @ e2)"
        using e1(3) e2(3) by (metis Un_iff set_append)
      ultimately show ?thesis using m Inl True f by auto
    qed
  qed
qed

lemma only_download_photo:
  assumes "\<And>u. P (HttpGet u)" and "P (Wrote path)" and "\<And>ps. P (Print ps)"
  shows "only P (download_photo E url path)"
proof -
  let ?m = "bindIO (http_get E url) (\<lambda>body.
           bindIO (makedirs E (dirname path)) (\<lambda>_.
           write_file E path (\<lambda>_. Bytes body)))"
  let ?h = "\<lambda>e. bindIO (emit (Print [Lit ''  Error downloading photo: '', Exc e])) (\<lambda>_. returnIO False)"
  have m: "only P ?m"
    by (intro only_bind only_http_get only_makedirs only_write_file assms)
  have h: "\<And>e. only P (?h e)"
    by (intro only_bind only_emit only_returnIO assms)
  have eq: "download_photo E url path =
     (\<lambda>w. case ?m w of (Inr u, w') \<Rightarrow> (Inr True, w')
                    | (Inl e, w') \<Rightarrow> if is_Exception e then ?h e w' else (Inl e, w'))"
    by (rule ext) (simp add: download_photo_def)
  show ?thesis unfolding eq by (rule only_catch[OF m h])
qed

lemma only_mapIO: "(\<And>x. only P (f x)) \<Longrightarrow> only P (mapIO f xs)"
  by (induction xs) (auto intro!: only_bind only_returnIO)

lemma only_cache_store: "only P (\<lambda>w'. (Inr entry, w'\<lparr>user_cache := c w'\<rparr>))"
  by (simp add: only_def)

lemma only_get_cached_user_info:
  assumes "\<And>rq. P (Remote rq)"
  shows "only P (get_cached_user_info E u)"
proof (rule onlyI)
  fix w
  let ?m = "bindIO (get_user_info E u) (\<lambda>user_info.
               bindIO (liftR (user_entry E u user_info)) (\<lambda>entry w'.
                 (Inr entry, w'\<lparr>user_cache := user_cache w' @ [(u, entry)]\<rparr>)))"
  have o: "only P ?m"
    unfolding get_user_info_def
    by (intro only_bind only_or_default only_flickr_call only_liftR only_cache_store assms)
  obtain r w1 where m: "?m w = (r, w1)" by (cases "?m w")
  from onlyD[OF o m] m show "\<exists>evs. trace (snd (get_cached_user_info E u w)) = trace w @ evs \<and> list_all P evs
        \<and> (\<forall>p. files (snd (get_cached_user_info E u w)) p \<noteq> files w p \<longrightarrow> Wrote p \<in> set evs)"
    by (auto simp: get_cached_user_info_def split: option.splits)
qed

lemma only_case_list:
  "only P a \<Longrightarrow> (\<And>y ys. only P (b y ys)) \<Longrightarrow> only P (case xs of [] \<Rightarrow> a | y # ys \<Rightarrow> b y ys)"
  by (cases xs) simp_all

lemma only_case_json:
  "only P a \<Longrightarrow> (\<And>b. only P (fb b)) \<Longrightarrow> (\<And>n. only P (fi n)) \<Longrightarrow> (\<And>s. only P (fs s))
   \<Longrightarrow> (\<And>xs. only P (fl xs)) \<Longrightarrow> (\<And>kvs. only P (fd kvs))
   \<Longrightarrow> only P (case_json a fb fi fs fl fd v)"
  by (cases v) simp_all

lemmas only_intros = only_bind only_liftR only_returnIO only_raiseIO only_if only_or_default
  only_flickr_call only_save_json only_mapIO only_get_cached_user_info only_emit only_download_photo
  only_case_list only_case_json only_write_file

lemma only_stage_metadata:
  assumes "\<And>rq. P (Remote rq)" and "P (Wrote (path_join d ''metadata.json''))"
  shows "only P (stage_metadata E photo photo_id d fav)"
  unfolding stage_metadata_def get_photo_info_def get_photo_geo_def get_photo_contexts_def
  by (intro only_intros assms)

lemma only_comment_obj:
  assumes "\<And>rq. P (Remote rq)"
  shows "only P (comment_obj E c)"
  unfolding comment_obj_def by (intro only_intros assms)

lemma only_fav_obj:
  assumes "\<And>rq. P (Remote rq)"
  shows "only P (fav_obj E c)"
  unfolding fav_obj_def by (intro only_intros assms)

lemma only_stage_comments:
  assumes "\<And>rq. P (Remote rq)" and "P (Wrote (path_join d ''comments.json''))"
  shows "only P (stage_comments E photo_id d)"
  unfolding stage_comments_def get_photo_comments_def
  by (intro only_intros only_comment_obj assms)

lemma only_stage_favorites:
  assumes "\<And>rq. P (Remote rq)" and "P (Wrote (path_join d ''favorites.json''))"
  shows "only P (stage_favorites E photo_id d)"
  unfolding stage_favorites_def get_photo_favorites_def
  by (intro only_intros only_fav_obj assms)

lemma only_stage_exif:
  assumes "\<And>rq. P (Remote rq)" and "P (Wrote (path_join d ''exif.json''))"
  shows "only P (stage_exif E photo_id d)"
  unfolding stage_exif_def get_photo_exif_def
  by (intro only_intros assms)

lemma only_archive_records:
  assumes "\<And>rq. P (Remote rq)" and "\<And>ps. P (Print ps)"
    and "P (Wrote (path_join d ''metadata.json''))" and "P (Wrote (path_join d ''comments.json''))"
    and "P (Wrote (path_join d ''favorites.json''))" and "P (Wrote (path_join d ''exif.json''))"
  shows "only P (archive_records E photo photo_id d fav)"
  unfolding archive_records_def
  by (intro only_intros only_stage_metadata only_stage_comments only_stage_favorites only_stage_exif assms)

lemma only_video_branch:
  assumes "\<And>rq. P (Remote rq)" and "\<And>ps. P (Print ps)" and "\<And>u. P (HttpGet u)"
    and "P (Wrote (path_join d ''poster.jpg''))" and "P (Wrote (path_join d ''sizes.json''))"
  shows "only P (video_branch E photo_id d info md)"
  unfolding video_branch_def get_photo_sizes_def
  by (intro only_intros assms)

lemma only_photo_branch:
  assumes "\<And>rq. P (Remote rq)" and "\<And>ps. P (Print ps)" and "\<And>u. P (HttpGet u)"
    and "\<And>u. P (Wrote (path_join d (''original.'' @ file_ext u)))" and "P (Wrote (path_join d ''sizes.json''))"
  shows "only P (photo_branch E photo_id d)"
  unfolding photo_branch_def get_photo_sizes_def
  by (intro only_intros assms)

lemma only_stage_media:
  assumes "\<And>rq. P (Remote rq)" and "\<And>ps. P (Print ps)" and "\<And>u. P (HttpGet u)"
    and "P (Wrote (path_join d ''poster.jpg''))" and "P (Wrote (path_join d ''sizes.json''))"
    and "\<And>u. P (Wrote (path_join d (''original.'' @ file_ext u)))"
  shows "only P (stage_media E photo_id d info md)"
  unfolding stage_media_def
  by (intro only_intros only_video_branch only_photo_branch assms)

subsection \<open>Events of a normal return, in order\<close>

lemma bindIO_assoc: "bindIO (bindIO m f) g = bindIO m (\<lambda>x. bindIO (f x) g)"
  by (rule ext) (simp add: bindIO_def split: prod.splits sum.splits)

lemma bindIO_cases:
  assumes "bindIO m f w = (r, w')"
  obtains (fail) e where "m w = (Inl e, w')" "r = Inl e"
        | (ok) x w1 where "m w = (Inr x, w1)" "f x w1 = (r, w')"
  using assms by (auto simp: bindIO_def split: prod.splits sum.splits)

lemma yieldsD:
  "yields es m \<Longrightarrow> m w = (Inr x, w') \<Longrightarrow> \<exists>evs. trace w' = trace w @ evs \<and> subseq es evs"
  by (auto simp: yields_def)

lemma yields_nil: "only P m \<Longrightarrow> yields [] m"
  unfolding yields_def by (metis onlyD list_emb_Nil)

lemma yields_bind:
  assumes "yields es1 m" and "\<And>x. yields es2 (f x)"
  shows "yields (es1 @ es2) (bindIO m f)"
  unfolding yields_def
proof (intro allI impI)
  fix w x w'
  assume "bindIO m f w = (Inr x, w')"
  then show "\<exists>evs. trace w' = trace w @ evs \<and> subseq (es1 @ es2) evs"
  proof (cases rule: bindIO_cases)
    case (fail e)
    then show ?thesis by simp
  next
    case (ok y w1)
    from yieldsD[OF assms(1) ok(1)] obtain e1 where e1: "trace w1 = trace w @ e1" "subseq es1 e1" by blast
    from yieldsD[OF assms(2) ok(2)] obtain e2 where e2: "trace w' = trace w1 @ e2" "subseq es2 e2" by blast
    have "subseq (es1 @ es2) (e1 @ e2)" using e1(2) e2(2) by (rule list_emb_append_mono)
    with e1 e2 show ?thesis by auto
  qed
qed

lemma yields_bind_last:
  assumes "only (\<lambda>_. True) m" and "\<And>x. yields es (f x)"
  shows "yields es (bindIO m f)"
  using yields_bind[OF yields_nil[OF assms(1)], of es f] assms(2) by simp

lemma yields_bind_first:
  assumes "yields es m" and "\<And>x. only (\<lambda>_. True) (f x)"
  shows "yields es (bindIO m f)"
  using yields_bind[OF assms(1), of "[]" f] yields_nil[OF assms(2)] by simp

lemma yields_write_file: "yields [Wrote p] (write_file E p mk)"
  by (auto simp: yields_def write_file_def Let_def split: option.splits)

lemma yields_save_json: "yields [Wrote p] (save_json E data p)"
  unfolding save_json_def
  by (intro yields_bind_last only_makedirs yields_write_file)

lemma yields_save_return: "yields [Wrote p] (bindIO (save_json E data p) (\<lambda>_. returnIO x))"
  by (intro yields_bind_first yields_save_json only_returnIO)

lemma yields_flickr_call: "yields [Remote rq] (flickr_call E rq)"
  by (auto simp: yields_def flickr_call_def)

lemma yields_call_first:
  "(\<And>x. only (\<lambda>_. True) (f x)) \<Longrightarrow> yields [Remote rq] (bindIO (flickr_call E rq) f)"
  by (intro yields_bind_first yields_flickr_call)

lemma yields_if: "yields es a \<Longrightarrow> yields es b \<Longrightarrow> yields es (if c then a else b)"
  by simp

lemma yields_stage_metadata:
  "yields [Wrote (path_join d ''metadata.json'')] (stage_metadata E photo photo_id d fav)"
  unfolding stage_metadata_def get_photo_info_def get_photo_geo_def get_photo_contexts_def
  by (intro yields_save_return yields_bind_last only_intros TrueI)

lemma yields_stage_comments:
  "yields [Wrote (path_join d ''comments.json'')] (stage_comments E photo_id d)"
  unfolding stage_comments_def get_photo_comments_def
  by (intro yields_save_json yields_bind_last only_intros only_comment_obj TrueI)

lemma yields_stage_favorites:
  "yields [Wrote (path_join d ''favorites.json'')] (stage_favorites E photo_id d)"
  unfolding stage_favorites_def get_photo_favorites_def
  by (intro yields_save_json yields_bind_last only_intros only_fav_obj TrueI)

lemma yields_stage_exif:
  "yields [Wrote (path_join d ''exif.json'')] (stage_exif E photo_id d)"
  unfolding stage_exif_def get_photo_exif_def
  by (intro yields_save_json yields_bind_last only_intros TrueI)

lemma yields_video_branch:
  "yields [Remote (PhotosGetSizes photo_id)] (video_branch E photo_id d info md)"
  unfolding video_branch_def get_photo_sizes_def
  by (intro yields_call_first yields_bind_last only_intros TrueI)

lemma yields_photo_branch:
  "yields [Remote (PhotosGetSizes photo_id)] (photo_branch E photo_id d)"
  unfolding photo_branch_def get_photo_sizes_def
  by (intro yields_call_first only_intros TrueI)

lemma yields_stage_media:
  "yields [Remote (PhotosGetSizes photo_id)] (stage_media E photo_id d info md)"
  unfolding stage_media_def
  by (intro yields_bind_last yields_if yields_video_branch only_liftR
      yields_bind_first[OF yields_photo_branch] only_returnIO)

subsection \<open>The completion marker\<close>

lemma path_join_neq:
  "a \<noteq> b \<Longrightarrow> a \<noteq> [] \<Longrightarrow> hd a \<noteq> CHR ''/'' \<Longrightarrow> b \<noteq> [] \<Longrightarrow> hd b \<noteq> CHR ''/''
   \<Longrightarrow> path_join d a \<noteq> path_join d b"
  by (simp add: path_join_def)

lemma yields_archive_records:
  "yields [Wrote (path_join d ''metadata.json''), Wrote (path_join d ''comments.json''),
           Wrote (path_join d ''favorites.json''), Wrote (path_join d ''exif.json'')]
     (archive_records E photo photo_id d fav)"
proof -
  have 4: "\<And>im. yields [Wrote (path_join d ''exif.json'')]
             (bindIO (stage_exif E photo_id d) (\<lambda>_. returnIO im))"
    by (intro yields_bind_first yields_stage_exif only_returnIO)
  have 3: "\<And>im. yields ([Wrote (path_join d ''favorites.json'')] @ [Wrote (path_join d ''exif.json'')])
             (bindIO (stage_favorites E photo_id d) (\<lambda>_. bindIO (stage_exif E photo_id d) (\<lambda>_. returnIO im)))"
    by (intro yields_bind yields_stage_favorites 4)
  have 2: "\<And>im. yields ([Wrote (path_join d ''comments.json'')] @
                  [Wrote (path_join d ''favorites.json'')] @ [Wrote (path_join d ''exif.json'')])
             (bindIO (stage_comments E photo_id d) (\<lambda>_.
              bindIO (stage_favorites E photo_id d) (\<lambda>_. bindIO (stage_exif E photo_id d) (\<lambda>_. returnIO im))))"
    by (intro yields_bind yields_stage_comments 3)
  have 1: "yields ([Wrote (path_join d ''metadata.json'')] @ [Wrote (path_join d ''comments.json'')] @
                  [Wrote (path_join d ''favorites.json'')] @ [Wrote (path_join d ''exif.json'')])
             (bindIO (stage_metadata E photo photo_id d fav) (\<lambda>im. bindIO (stage_comments E photo_id d) (\<lambda>_.
              bindIO (stage_favorites E photo_id d) (\<lambda>_. bindIO (stage_exif E photo_id d) (\<lambda>_. returnIO im)))))"
    by (intro yields_bind yields_stage_metadata 2)
  show ?thesis
    unfolding archive_records_def
    using yields_bind_last[OF only_emit 1] by simp
qed

lemma yields_before_marker:
  "yields [Wrote (path_join d ''metadata.json''), Wrote (path_join d ''comments.json''),
           Wrote (path_join d ''favorites.json''), Wrote (path_join d ''exif.json''),
           Remote (PhotosGetSizes photo_id)]
     (before_marker E photo photo_id d fav)"
  unfolding before_marker_def
  using yields_bind[OF yields_archive_records, of "[Remote (PhotosGetSizes photo_id)]"
      "\<lambda>im. stage_media E photo_id d (fst im) (snd im)" d E photo photo_id fav]
    yields_stage_media
  by simp

lemma only_before_marker:
  "only (\<lambda>ev. ev \<noteq> Wrote (path_join d ''complete.flag'')) (before_marker E photo photo_id d fav)"
  unfolding before_marker_def
  by (intro only_bind only_archive_records only_stage_media)
     (simp_all add: path_join_neq)

lemma path_exists_trace: "path_exists (w\<lparr>trace := t\<rparr>) p = path_exists w p"
  by (simp add: path_exists_def)

lemma process_photo_unfold:
  assumes "subscr photo ''id'' = Inr (JStr photo_id)"
  shows "process_photo E photo base_dir fav w =
     (let d = path_join base_dir photo_id; w0 = w\<lparr>trace := trace w @ [Sleep RATE_DELAY]\<rparr>
      in if path_exists w (path_join d ''complete.flag'')
         then (Inr (), w0\<lparr>trace := trace w0 @
                 [Print [Lit ''  Skipping '', Val (JStr photo_id), Lit '' - already processed'']]\<rparr>)
         else bindIO (before_marker E photo photo_id d fav)
                (\<lambda>md. bindIO (mark_complete E d) (\<lambda>_. emit (Sleep 500))) w0)"
  using assms
  by (simp add: process_photo_def before_marker_def bindIO_assoc Let_def path_exists_trace
      bindIO_def[of "liftR (Inr (JStr photo_id))"] bindIO_def[of "emit (Sleep RATE_DELAY)"] liftR_def emit_def)

lemma finish_cases:
  assumes "bindIO (mark_complete E d) (\<lambda>_. emit (Sleep 500)) w1 = (r, w')"
  shows "(\<exists>e. r = Inl e \<and> w' = w1)
       \<or> (\<exists>e. r = Inl e \<and> trace w' = trace w1 @ [Wrote (path_join d ''complete.flag'')]
              \<and> files w' = (files w1)(path_join d ''complete.flag'' \<mapsto> Truncated))
       \<or> (r = Inr () \<and> trace w' = trace w1 @ [Wrote (path_join d ''complete.flag''), Sleep 500]
              \<and> files w' = (files w1)(path_join d ''complete.flag''
                                        \<mapsto> Text (now_iso E (Suc (length (trace w1))))))"
  using assms
  by (auto simp: mark_complete_def write_file_def bindIO_def emit_def tick_def Let_def split: option.splits)

text \<open>
  Claim C1. In \<open>process_photo\<close> the completion marker is the last thing persisted. A run
  on a photo without a marker that returns normally has written \<open>metadata.json\<close>,
  \<open>comments.json\<close>, \<open>favorites.json\<close> and \<open>exif.json\<close> and fetched the sizes, in this
  order, then written the marker, which holds the time of that moment, and then only
  slept. Whatever the run, the marker file changes only through its opening, which comes
  after these steps and is followed by at most the final sleep. A run that an exception
  leaves before the marker is opened leaves no marker file; one that fails while the
  marker is written leaves it empty.
\<close>

theorem marker_written_last:
  assumes id: "subscr photo ''id'' = Inr (JStr photo_id)"
    and run: "process_photo E photo base_dir fav w = (r, w')"
  shows "\<exists>evs. trace w' = trace w @ evs
     \<and> (r = Inr () \<and> \<not> path_exists w (marker_of base_dir photo_id) \<longrightarrow>
          (\<exists>pre. evs = pre @ [Wrote (marker_of base_dir photo_id), Sleep 500]
             \<and> Wrote (marker_of base_dir photo_id) \<notin> set pre
             \<and> subseq [Wrote (path_join (path_join base_dir photo_id) ''metadata.json''),
                       Wrote (path_join (path_join base_dir photo_id) ''comments.json''),
                       Wrote (path_join (path_join base_dir photo_id) ''favorites.json''),
                       Wrote (path_join (path_join base_dir photo_id) ''exif.json''),
                       Remote (PhotosGetSizes photo_id)] pre)
          \<and> files w' (marker_of base_dir photo_id)
              = Some (Text (now_iso E (length (trace w') - 1))))
     \<and> (files w' (marker_of base_dir photo_id) \<noteq> files w (marker_of base_dir photo_id)
          \<longrightarrow> Wrote (marker_of base_dir photo_id) \<in> set evs)
     \<and> (Wrote (marker_of base_dir photo_id) \<in> set evs \<longrightarrow>
          (\<exists>pre post. evs = pre @ Wrote (marker_of base_dir photo_id) # post
             \<and> Wrote (marker_of base_dir photo_id) \<notin> set pre
             \<and> subseq [Wrote (path_join (path_join base_dir photo_id) ''metadata.json''),
                       Wrote (path_join (path_join base_dir photo_id) ''comments.json''),
                       Wrote (path_join (path_join base_dir photo_id) ''favorites.json''),
                       Wrote (path_join (path_join base_dir photo_id) ''exif.json''),
                       Remote (PhotosGetSizes photo_id)] pre
             \<and> (post = [] \<or> post = [Sleep 500])))
     \<and> (\<forall>e. r = Inl e \<longrightarrow>
          files w' (marker_of base_dir photo_id)
            = (if Wrote (marker_of base_dir photo_id) \<in> set evs then Some Truncated else None))"
proof -
  let ?d = "path_join base_dir photo_id"
  let ?M = "path_join ?d ''complete.flag''"
  let ?w0 = "w\<lparr>trace := trace w @ [Sleep RATE_DELAY]\<rparr>"
  let ?L = "[Wrote (path_join ?d ''metadata.json''), Wrote (path_join ?d ''comments.json''),
             Wrote (path_join ?d ''favorites.json''), Wrote (path_join ?d ''exif.json''),
             Remote (PhotosGetSizes photo_id)]"
  have M: "marker_of base_dir photo_id = ?M" by (simp add: marker_of_def)
  show ?thesis
  proof (cases "path_exists w ?M")
    case True
    with run process_photo_unfold[OF id, of E base_dir fav w]
    have "r = Inr ()" and "trace w' = trace w @ [Sleep RATE_DELAY,
        Print [Lit ''  Skipping '', Val (JStr photo_id), Lit '' - already processed'']]"
      and "files w' = files w"
      by (auto simp: Let_def)
    with True show ?thesis by (simp add: M)
  next
    case False
    then have none: "files w ?M = None" by (simp add: path_exists_def)
    from False run process_photo_unfold[OF id, of E base_dir fav w]
    have body: "bindIO (before_marker E photo photo_id ?d fav)
                  (\<lambda>md. bindIO (mark_complete E ?d) (\<lambda>_. emit (Sleep 500))) ?w0 = (r, w')"
      by (simp add: Let_def)
    then show ?thesis
    proof (cases rule: bindIO_cases)
      case (fail e)
      from onlyD[OF only_before_marker fail(1)]
      obtain e1 where e1: "trace w' = trace ?w0 @ e1" "list_all (\<lambda>ev. ev \<noteq> Wrote ?M) e1"
        "\<forall>p. files w' p \<noteq> files ?w0 p \<longrightarrow> Wrote p \<in> set e1" by blast
      have no: "Wrote ?M \<notin> set e1" using e1(2) by (auto simp: list_all_iff)
      with e1(3) have "files w' ?M = files ?w0 ?M" by blast
      then have same: "files w' ?M = files w ?M" by simp
      have "trace w' = trace w @ (Sleep RATE_DELAY # e1)" using e1(1) by simp
      moreover have "Wrote ?M \<notin> set (Sleep RATE_DELAY # e1)" using no by simp
      ultimately show ?thesis using same none fail(2) unfolding M by (intro exI[of _ "Sleep RATE_DELAY # e1"]) simp
    next
      case (ok md w1)
      from onlyD[OF only_before_marker ok(1)]
      obtain e1 where e1: "trace w1 = trace ?w0 @ e1" "list_all (\<lambda>ev. ev \<noteq> Wrote ?M) e1"
        "\<forall>p. files w1 p \<noteq> files ?w0 p \<longrightarrow> Wrote p \<in> set e1" by blast
      have no: "Wrote ?M \<notin> set e1" using e1(2) by (auto simp: list_all_iff)
      with e1(3) have "files w1 ?M = files ?w0 ?M" by blast
      then have same: "files w1 ?M = None" using none by simp
      from yieldsD[OF yields_before_marker ok(1)] e1(1)
      have "subseq ?L e1" by auto
      then have sub: "subseq ?L (Sleep RATE_DELAY # e1)" by (rule list_emb_Cons)
      have pre: "Wrote ?M \<notin> set (Sleep RATE_DELAY # e1)" using no by simp
      have tr: "trace w1 = trace w @ (Sleep RATE_DELAY # e1)" using e1(1) by simp
      from finish_cases[OF ok(2)] show ?thesis
      proof (elim disjE exE conjE)
        fix e assume "r = Inl e" "w' = w1"
        with tr pre same none show ?thesis unfolding M
          by (intro exI[of _ "Sleep RATE_DELAY # e1"]) simp
      next
        fix e assume a: "r = Inl e" "trace w' = trace w1 @ [Wrote ?M]"
          "files w' = (files w1)(?M \<mapsto> Truncated)"
        have "trace w' = trace w @ ((Sleep RATE_DELAY # e1) @ Wrote ?M # [])" using a(2) tr by simp
        with a pre sub none show ?thesis unfolding M
          by (intro exI[of _ "(Sleep RATE_DELAY # e1) @ Wrote ?M # []"] conjI impI allI
                exI[of _ "Sleep RATE_DELAY # e1"] exI[of _ "[]"]) simp_all
      next
        assume a: "r = Inr ()" "trace w' = trace w1 @ [Wrote ?M, Sleep 500]"
          "files w' = (files w1)(?M \<mapsto> Text (now_iso E (Suc (length (trace w1)))))"
        have t: "trace w' = trace w @ ((Sleep RATE_DELAY # e1) @ Wrote ?M # [Sleep 500])" using a(2) tr by simp
        have len: "length (trace w') - 1 = Suc (length (trace w1))" using a(2) by simp
        from t a pre sub none len show ?thesis unfolding M
          by (intro exI[of _ "(Sleep RATE_DELAY # e1) @ Wrote ?M # [Sleep 500]"] conjI impI allI
                exI[of _ "Sleep RATE_DELAY # e1"] exI[of _ "[Sleep 500]"]) simp_all
      qed
    qed
  qed
qed

subsection \<open>Evaluating a run\<close>

lemmas io_simps = bindIO_def liftR_def returnIO_def raiseIO_def emit_def flickr_call_def or_default_def tick_def
  bindR_def subscr_def dict_get_def get_content_def py_in_def py_iter_def py_int_def
  save_json_def makedirs_def write_file_def dirname_def path_join_def Let_def dict_set_def py_str_def

lemmas stage_defs = process_photo_def archive_records_def stage_metadata_def stage_comments_def
  stage_favorites_def stage_exif_def stage_media_def video_branch_def photo_branch_def mark_complete_def
  get_photo_info_def get_photo_geo_def get_photo_contexts_def get_photo_comments_def get_photo_favorites_def
  get_photo_exif_def get_photo_sizes_def get_user_info_def get_cached_user_info_def user_entry_def
  photo_metadata_def photo_location_def photo_albums_def album_entry_def comment_obj_def fav_obj_def exif_item_def
  video_urls_of_def size_list_def select_original_def sorted_desc_def video_width_def photo_width_def
  download_photo_def http_get_def path_exists_def hashable_def cache_find_def key_norm_def BUDDYICON_def
  PHOTOS_DIR_def DATA_DIR_def RATE_DELAY_def

lemma no_photo_run:
  "process_photo (quiet_env no_photo) (JDict [(''id'', JStr ''1'')]) PHOTOS_DIR False empty_world
     = (Inl (FlickrError ''Photo not found''),
        empty_world\<lparr>trace := [Sleep RATE_DELAY,
           Print [Lit ''  Processing photo '', Val (JStr ''1''), Lit ''...''],
           Remote (PhotosGetInfo ''1'')]\<rparr>)"
  by (simp add: process_photo_def archive_records_def stage_metadata_def get_photo_info_def
      path_exists_def quiet_env_def empty_world_def no_photo_def io_simps)

lemma plain_run_returns:
  "fst (process_photo (quiet_env plain_answer) (JDict [(''id'', JStr ''1'')]) PHOTOS_DIR False empty_world)
     = Inr ()"
  by (simp add: stage_defs quiet_env_def empty_world_def plain_answer_def io_simps int_simps)

text \<open>
  A run on an empty disk that returns: the marker holds the time, and its writing and the
  final sleep end the trace, after the four record files and the fetch of the sizes. And
  a run that the service refuses at the first fetch: the exception escapes, and there is
  no marker.
\<close>

theorem marker_written_last_witness:
  "subscr (JDict [(''id'', JStr ''1'')]) ''id'' = Inr (JStr ''1'')
   \<and> fst (process_photo (quiet_env plain_answer) (JDict [(''id'', JStr ''1'')]) PHOTOS_DIR False empty_world)
       = Inr ()
   \<and> \<not> path_exists empty_world (marker_of PHOTOS_DIR ''1'')
   \<and> files (snd (process_photo (quiet_env plain_answer) (JDict [(''id'', JStr ''1'')]) PHOTOS_DIR False empty_world))
       (marker_of PHOTOS_DIR ''1'') = Some (Text ''2024-01-01T00:00:00'')
   \<and> (\<exists>pre. trace (snd (process_photo (quiet_env plain_answer) (JDict [(''id'', JStr ''1'')]) PHOTOS_DIR False
                        empty_world))
              = pre @ [Wrote (marker_of PHOTOS_DIR ''1''), Sleep 500]
          \<and> Wrote (marker_of PHOTOS_DIR ''1'') \<notin> set pre
          \<and> subseq [Wrote (path_join (path_join PHOTOS_DIR ''1'') ''metadata.json''),
                    Wrote (path_join (path_join PHOTOS_DIR ''1'') ''comments.json''),
                    Wrote (path_join (path_join PHOTOS_DIR ''1'') ''favorites.json''),
                    Wrote (path_join (path_join PHOTOS_DIR ''1'') ''exif.json''),
                    Remote (PhotosGetSizes ''1'')] pre)
   \<and> fst (process_photo (quiet_env no_photo) (JDict [(''id'', JStr ''1'')]) PHOTOS_DIR False empty_world)
       = Inl (FlickrError ''Photo not found'')
   \<and> files (snd (process_photo (quiet_env no_photo) (JDict [(''id'', JStr ''1'')]) PHOTOS_DIR False empty_world))
       (marker_of PHOTOS_DIR ''1'') = None"
proof -
  let ?photo = "JDict [(''id'', JStr ''1'')]"
  let ?X = "process_photo (quiet_env plain_answer) ?photo PHOTOS_DIR False empty_world"
  let ?M = "marker_of PHOTOS_DIR ''1''"
  have id: "subscr ?photo ''id'' = Inr (JStr ''1'')"
    by (simp add: subscr_def)
  have fresh: "\<not> path_exists empty_world ?M"
    by (simp add: path_exists_def empty_world_def)
  have run: "?X = (Inr (), snd ?X)"
    using plain_run_returns by (simp add: prod_eq_iff)
  have now: "\<And>t. now_iso (quiet_env plain_answer) t = ''2024-01-01T00:00:00''"
    by (simp add: quiet_env_def)
  from marker_written_last[OF id run] fresh
  obtain evs pre where evs: "trace (snd ?X) = trace empty_world @ evs"
    "evs = pre @ [Wrote ?M, Sleep 500]" "Wrote ?M \<notin> set pre"
    "subseq [Wrote (path_join (path_join PHOTOS_DIR ''1'') ''metadata.json''),
             Wrote (path_join (path_join PHOTOS_DIR ''1'') ''comments.json''),
             Wrote (path_join (path_join PHOTOS_DIR ''1'') ''favorites.json''),
             Wrote (path_join (path_join PHOTOS_DIR ''1'') ''exif.json''),
             Remote (PhotosGetSizes ''1'')] pre"
    "files (snd ?X) ?M = Some (Text (now_iso (quiet_env plain_answer) (length (trace (snd ?X)) - 1)))"
    by auto
  have good: "files (snd ?X) ?M = Some (Text ''2024-01-01T00:00:00'')"
    using evs(5) by (simp only: now)
  have tr: "trace (snd ?X) = pre @ [Wrote ?M, Sleep 500]"
    using evs(1,2) by (simp add: empty_world_def)
  from marker_written_last[OF id no_photo_run]
  obtain evs' where evs': "trace (empty_world\<lparr>trace := [Sleep RATE_DELAY,
           Print [Lit ''  Processing photo '', Val (JStr ''1''), Lit ''...''],
           Remote (PhotosGetInfo ''1'')]\<rparr>) = trace empty_world @ evs'"
    and m: "files (empty_world\<lparr>trace := [Sleep RATE_DELAY,
           Print [Lit ''  Processing photo '', Val (JStr ''1''), Lit ''...''],
           Remote (PhotosGetInfo ''1'')]\<rparr>) ?M
        = (if Wrote ?M \<in> set evs' then Some Truncated else None)"
    by blast
  from evs' have "evs' = [Sleep RATE_DELAY,
           Print [Lit ''  Processing photo '', Val (JStr ''1''), Lit ''...''],
           Remote (PhotosGetInfo ''1'')]" by (simp add: empty_world_def)
  with m have bad: "files (empty_world\<lparr>trace := [Sleep RATE_DELAY,
           Print [Lit ''  Processing photo '', Val (JStr ''1''), Lit ''...''],
           Remote (PhotosGetInfo ''1'')]\<rparr>) ?M = None" by simp
  from id plain_run_returns fresh good tr evs(3,4) bad show ?thesis
    by (simp add: no_photo_run)
qed

subsection \<open>Widths that are no integers\<close>

lemma bad_width_raises:
  assumes "map_of kvs ''width'' = Some w" and "w = JNull \<or> (\<exists>str. w = JStr str \<and> parse_int str = None)"
  shows "photo_width (JDict kvs) = Inl (if w = JNull then TypeError else ValueError)"
  using assms by (auto simp: photo_width_def dict_get_def py_int_def)

lemma photo_width_exc: "photo_width (JDict kvs) = Inl e \<Longrightarrow> e = TypeError \<or> e = ValueError"
  by (auto simp: photo_width_def dict_get_def py_int_def split: option.splits json.splits)

lemma video_width_video_wf: "video_wf_width s \<Longrightarrow> \<exists>n. video_width s = Inr n"
  by (auto simp: video_wf_width_def video_width_def dict_get_def py_int_def int_like_def
      split: json.splits option.splits)

lemma mapR_Inl: "mapR f xs = Inl e \<Longrightarrow> \<exists>x\<in>set xs. f x = Inl e"
proof (induction xs)
  case Nil
  then show ?case by simp
next
  case (Cons y ys)
  show ?case
  proof (cases "f y")
    case (Inl a)
    with Cons.prems show ?thesis by simp
  next
    case (Inr b)
    with Cons.prems have "mapR f ys = Inl e" by (cases "mapR f ys") simp_all
    with Cons.IH show ?thesis by auto
  qed
qed

lemma sorted_desc_fails:
  "x \<in> set xs \<Longrightarrow> key x = Inl e \<Longrightarrow> \<exists>e'. sorted_desc key xs = Inl e'"
  using mapR_fails[of x xs key e] by (auto simp: sorted_desc_def)

lemma sorted_desc_Inl: "sorted_desc key xs = Inl e \<Longrightarrow> \<exists>x\<in>set xs. key x = Inl e"
  by (cases "mapR key xs") (auto simp: sorted_desc_def dest: mapR_Inl)

lemma sorted_desc_total:
  "(\<And>x. x \<in> set xs \<Longrightarrow> key x = Inr (g x)) \<Longrightarrow> \<exists>ss. sorted_desc key xs = Inr ss"
  using mapR_total[of xs key g] by (auto simp: sorted_desc_def)

lemma sorted_desc_returns:
  assumes "\<And>x. x \<in> set xs \<Longrightarrow> \<exists>n. key x = Inr n"
  shows "\<exists>ss. sorted_desc key xs = Inr ss"
proof (cases "sorted_desc key xs")
  case (Inl e)
  from sorted_desc_Inl[OF this] assms show ?thesis by fastforce
next
  case (Inr ss)
  then show ?thesis by blast
qed

lemma has_label_dict: "has_label s \<Longrightarrow> \<exists>kvs. s = JDict kvs"
  by (cases s) (simp_all add: has_label_def subscr_def)

lemma select_original_bad_width:
  assumes "list_all has_label xs" and "\<not> list_ex is_Original xs"
    and "JDict kvs \<in> set xs" and "map_of kvs ''width'' = Some wd"
    and "wd = JNull \<or> (\<exists>str. wd = JStr str \<and> parse_int str = None)"
  shows "\<exists>e. select_original (JList xs) = Inl e \<and> (e = TypeError \<or> e = ValueError)"
proof -
  have none: "find_original xs = Inr JNull" using assms(1,2) by (rule find_original_none)
  have ne: "xs \<noteq> []" using assms(3) by auto
  from bad_width_raises[OF assms(4,5)] sorted_desc_fails[OF assms(3)]
  obtain e where e: "sorted_desc photo_width xs = Inl e" by blast
  from sorted_desc_Inl[OF e] obtain x where x: "x \<in> set xs" "photo_width x = Inl e" by blast
  from x(1) assms(1) have "has_label x" by (auto simp: list_all_iff)
  then obtain kvx where "x = JDict kvx" using has_label_dict by blast
  with x(2) have "e = TypeError \<or> e = ValueError" using photo_width_exc by blast
  moreover have "select_original (JList xs) = Inl e"
    using none ne e by (simp add: select_original_def py_iter_def)
  ultimately show ?thesis by blast
qed

lemma stage_media_select_fails:
  assumes "bindR (subscr info ''photo'') (\<lambda>p. dict_get p ''media'' (JStr ''photo'')) = Inr media"
    and "media \<noteq> JStr ''video''"
    and "remote E (tick w1) (PhotosGetSizes photo_id) = Inr sizes"
    and "size_list sizes = Inr v" and "select_original v = Inl e"
  shows "stage_media E photo_id d info md w1
           = (Inl e, w1\<lparr>trace := trace w1 @ [Remote (PhotosGetSizes photo_id)]\<rparr>)"
  using assms
  by (simp add: stage_media_def photo_branch_def get_photo_sizes_def flickr_call_def
      bindIO_def liftR_def returnIO_def)

text \<open>
  Claim C10, as the code has it. The sort of the fallback selection of a photo returns
  when every entry is a dictionary whose width, if present, is an integer or an
  integer-valued string; a missing width is the key 0. A present width that is \<open>None\<close>
  or a string that is no integer makes \<open>int()\<close> raise there: when the record files of
  the photo were written, the photo is no video and no size is labelled \<open>Original\<close>,
  the \<open>TypeError\<close> or \<open>ValueError\<close> leaves \<open>process_photo\<close> right after the fetch of
  the sizes. The key of the video selection, \<open>int(s.get('width') or 0)\<close>, is 0 for a
  missing width and for every width that is false in a condition (\<open>None\<close>, the empty
  string, 0), and the sort of the video selection returns when every width is missing,
  false or integer-like; for a non-empty string that is no integer the key raises
  \<open>ValueError\<close> as well, and so does the sort.
\<close>

theorem width_keys:
  "(list_all wf_width ys \<longrightarrow> (\<exists>ss. sorted_desc photo_width ys = Inr ss))
   \<and> (JDict kvs \<in> set xs \<and> map_of kvs ''width'' = Some wd
        \<and> (wd = JNull \<or> (\<exists>str. wd = JStr str \<and> parse_int str = None))
      \<longrightarrow> (\<exists>e. sorted_desc photo_width xs = Inl e)
          \<and> (subscr photo ''id'' = Inr (JStr photo_id)
               \<and> \<not> path_exists w (marker_of base_dir photo_id)
               \<and> archive_records E photo photo_id (path_join base_dir photo_id) fav
                    (w\<lparr>trace := trace w @ [Sleep RATE_DELAY]\<rparr>) = (Inr (info, md), w1)
               \<and> bindR (subscr info ''photo'') (\<lambda>p. dict_get p ''media'' (JStr ''photo'')) = Inr media
               \<and> media \<noteq> JStr ''video''
               \<and> remote E (tick w1) (PhotosGetSizes photo_id) = Inr sizes
               \<and> size_list sizes = Inr (JList xs)
               \<and> list_all has_label xs \<and> \<not> list_ex is_Original xs
              \<longrightarrow> (\<exists>e. (e = TypeError \<or> e = ValueError)
                     \<and> process_photo E photo base_dir fav w
                         = (Inl e, w1\<lparr>trace := trace w1 @ [Remote (PhotosGetSizes photo_id)]\<rparr>))))
   \<and> (map_of kvm ''width'' = None
      \<longrightarrow> video_width (JDict kvm) = Inr 0 \<and> photo_width (JDict kvm) = Inr 0)
   \<and> (map_of kvv ''width'' = Some v \<and> \<not> truthy v \<longrightarrow> video_width (JDict kvv) = Inr 0)
   \<and> (list_all video_wf_width zs \<longrightarrow> (\<exists>ss. sorted_desc video_width zs = Inr ss))
   \<and> (map_of kvw ''width'' = Some (JStr str) \<and> str \<noteq> [] \<and> parse_int str = None
      \<longrightarrow> video_width (JDict kvw) = Inl ValueError
          \<and> (JDict kvw \<in> set us \<longrightarrow> (\<exists>e. sorted_desc video_width us = Inl e)))"
proof (intro conjI impI)
  assume "list_all wf_width ys"
  then have "\<And>x. x \<in> set ys \<Longrightarrow> photo_width x = Inr (declared_width x)"
    by (auto simp: list_all_iff intro: photo_width_wf)
  then show "\<exists>ss. sorted_desc photo_width ys = Inr ss" by (rule sorted_desc_total)
next
  assume a: "JDict kvs \<in> set xs \<and> map_of kvs ''width'' = Some wd
        \<and> (wd = JNull \<or> (\<exists>str. wd = JStr str \<and> parse_int str = None))"
  then have pw: "photo_width (JDict kvs) = Inl (if wd = JNull then TypeError else ValueError)"
    by (intro bad_width_raises) auto
  with a show "\<exists>e. sorted_desc photo_width xs = Inl e"
    by (auto intro: sorted_desc_fails)
  assume b: "subscr photo ''id'' = Inr (JStr photo_id)
               \<and> \<not> path_exists w (marker_of base_dir photo_id)
               \<and> archive_records E photo photo_id (path_join base_dir photo_id) fav
                    (w\<lparr>trace := trace w @ [Sleep RATE_DELAY]\<rparr>) = (Inr (info, md), w1)
               \<and> bindR (subscr info ''photo'') (\<lambda>p. dict_get p ''media'' (JStr ''photo'')) = Inr media
               \<and> media \<noteq> JStr ''video''
               \<and> remote E (tick w1) (PhotosGetSizes photo_id) = Inr sizes
               \<and> size_list sizes = Inr (JList xs)
               \<and> list_all has_label xs \<and> \<not> list_ex is_Original xs"
  from select_original_bad_width[of xs kvs wd] a b
  obtain e where e: "select_original (JList xs) = Inl e" "e = TypeError \<or> e = ValueError" by blast
  from b e(1) have sm: "stage_media E photo_id (path_join base_dir photo_id) info md w1
           = (Inl e, w1\<lparr>trace := trace w1 @ [Remote (PhotosGetSizes photo_id)]\<rparr>)"
    by (intro stage_media_select_fails[where media = media and sizes = sizes and v = "JList xs"]) simp_all
  from b have id: "subscr photo ''id'' = Inr (JStr photo_id)"
    and fresh: "\<not> path_exists w (path_join (path_join base_dir photo_id) ''complete.flag'')"
    and records: "archive_records E photo photo_id (path_join base_dir photo_id) fav
                    (w\<lparr>trace := trace w @ [Sleep RATE_DELAY]\<rparr>) = (Inr (info, md), w1)"
    by (simp_all add: marker_of_def)
  from process_photo_unfold[OF id, of E base_dir fav w] fresh records sm
  have "process_photo E photo base_dir fav w
          = (Inl e, w1\<lparr>trace := trace w1 @ [Remote (PhotosGetSizes photo_id)]\<rparr>)"
    by (simp add: Let_def before_marker_def bindIO_def)
  with e(2) show "\<exists>e. (e = TypeError \<or> e = ValueError)
                     \<and> process_photo E photo base_dir fav w
                         = (Inl e, w1\<lparr>trace := trace w1 @ [Remote (PhotosGetSizes photo_id)]\<rparr>)"
    by blast
next
  assume "map_of kvm ''width'' = None"
  then show "video_width (JDict kvm) = Inr 0" "photo_width (JDict kvm) = Inr 0"
    by (simp_all add: video_width_def photo_width_def dict_get_def py_int_def)
next
  assume "map_of kvv ''width'' = Some v \<and> \<not> truthy v"
  then show "video_width (JDict kvv) = Inr 0"
    by (simp add: video_width_def dict_get_def py_int_def)
next
  assume "list_all video_wf_width zs"
  then have "\<And>x. x \<in> set zs \<Longrightarrow> \<exists>n. video_width x = Inr n"
    by (auto simp: list_all_iff intro: video_width_video_wf)
  then show "\<exists>ss. sorted_desc video_width zs = Inr ss" by (rule sorted_desc_returns)
next
  assume c: "map_of kvw ''width'' = Some (JStr str) \<and> str \<noteq> [] \<and> parse_int str = None"
  then show vw: "video_width (JDict kvw) = Inl ValueError"
    by (simp add: video_width_def dict_get_def py_int_def)
  assume "JDict kvw \<in> set us"
  with vw show "\<exists>e. sorted_desc video_width us = Inl e"
    by (auto intro: sorted_desc_fails)
qed

lemma bad_width_records:
  "\<exists>md. fst (archive_records (quiet_env bad_width_answer) (JDict [(''id'', JStr ''1'')]) ''1''
            (path_join PHOTOS_DIR ''1'') False (empty_world\<lparr>trace := trace empty_world @ [Sleep RATE_DELAY]\<rparr>))
        = Inr (JDict [(''photo'', JDict [
            (''media'', JStr ''photo''), (''title'', JDict [(''_content'', JStr ''Sunset'')]),
            (''views'', JInt 3)])], md)"
  by (simp add: archive_records_def stage_metadata_def stage_comments_def stage_favorites_def stage_exif_def
      get_photo_info_def get_photo_geo_def get_photo_contexts_def get_photo_comments_def
      get_photo_favorites_def get_photo_exif_def photo_metadata_def photo_location_def photo_albums_def
      PHOTOS_DIR_def DATA_DIR_def quiet_env_def empty_world_def bad_width_answer_def io_simps)

text \<open>
  One instance for each part. The photo of the example has a first size of width \<open>None\<close>
  and no \<open>Original\<close>: its run ends in the exception.
\<close>

theorem width_keys_witness:
  "(\<exists>ss. sorted_desc photo_width [JDict [(''label'', JStr ''Large''), (''width'', JStr ''1024'')],
                                  JDict [(''label'', JStr ''Small'')]] = Inr ss)
   \<and> (\<exists>e. sorted_desc photo_width
            [JDict [(''label'', JStr ''Large''), (''width'', JNull),
                    (''source'', JStr ''https://live.staticflickr.com/1/2_b.jpg'')],
             JDict [(''label'', JStr ''Medium''), (''width'', JStr ''500''),
                    (''source'', JStr ''https://live.staticflickr.com/1/2_m.jpg'')]] = Inl e)
   \<and> (\<exists>e w'. (e = TypeError \<or> e = ValueError)
         \<and> process_photo (quiet_env bad_width_answer) (JDict [(''id'', JStr ''1'')]) PHOTOS_DIR False empty_world
             = (Inl e, w'))
   \<and> video_width (JDict [(''label'', JStr ''Large'')]) = Inr 0
   \<and> photo_width (JDict [(''label'', JStr ''Large'')]) = Inr 0
   \<and> video_width (JDict [(''label'', JStr ''Large''), (''width'', JNull)]) = Inr 0
   \<and> (\<exists>ss. sorted_desc video_width
             [JDict [(''label'', JStr ''Small''), (''width'', JStr [])],
              JDict [(''label'', JStr ''Medium''), (''width'', JStr ''640'')],
              JDict [(''label'', JStr ''Large''), (''width'', JNull)],
              JDict [(''label'', JStr ''Square'')]] = Inr ss)
   \<and> video_width (JDict [(''label'', JStr ''Large''), (''width'', JStr ''abc'')]) = Inl ValueError
   \<and> (\<exists>e. sorted_desc video_width [JDict [(''label'', JStr ''Large''), (''width'', JStr ''abc'')]] = Inl e)"
proof -
  let ?E = "quiet_env bad_width_answer"
  let ?photo = "JDict [(''id'', JStr ''1'')]"
  let ?info = "JDict [(''photo'', JDict [
            (''media'', JStr ''photo''), (''title'', JDict [(''_content'', JStr ''Sunset'')]),
            (''views'', JInt 3)])]"
  let ?kvs = "[(''label'', JStr ''Large''), (''width'', JNull),
               (''source'', JStr ''https://live.staticflickr.com/1/2_b.jpg'')]"
  let ?xs = "[JDict ?kvs,
              JDict [(''label'', JStr ''Medium''), (''width'', JStr ''500''),
                     (''source'', JStr ''https://live.staticflickr.com/1/2_m.jpg'')]]"
  let ?sizes = "JDict [(''sizes'', JDict [(''size'', JList ?xs)])]"
  let ?X = "archive_records ?E ?photo ''1'' (path_join PHOTOS_DIR ''1'') False
              (empty_world\<lparr>trace := trace empty_world @ [Sleep RATE_DELAY]\<rparr>)"
  from bad_width_records obtain md where "fst ?X = Inr (?info, md)" by blast
  then have records: "?X = (Inr (?info, md), snd ?X)" by (simp add: prod_eq_iff)
  have hyps: "subscr ?photo ''id'' = Inr (JStr ''1'')"
    "\<not> path_exists empty_world (marker_of PHOTOS_DIR ''1'')"
    "bindR (subscr ?info ''photo'') (\<lambda>p. dict_get p ''media'' (JStr ''photo'')) = Inr (JStr ''photo'')"
    "JStr ''photo'' \<noteq> JStr ''video''"
    "remote ?E (tick (snd ?X)) (PhotosGetSizes ''1'') = Inr ?sizes"
    "size_list ?sizes = Inr (JList ?xs)"
    "list_all has_label ?xs" "\<not> list_ex is_Original ?xs"
    "JDict ?kvs \<in> set ?xs" "map_of ?kvs ''width'' = Some JNull"
    by (simp_all add: subscr_def dict_get_def path_exists_def empty_world_def quiet_env_def
        bad_width_answer_def size_list_def has_label_def is_Original_def)
  have wf: "list_all wf_width [JDict [(''label'', JStr ''Large''), (''width'', JStr ''1024'')],
                                  JDict [(''label'', JStr ''Small'')]]"
    "list_all video_wf_width
             [JDict [(''label'', JStr ''Small''), (''width'', JStr [])],
              JDict [(''label'', JStr ''Medium''), (''width'', JStr ''640'')],
              JDict [(''label'', JStr ''Large''), (''width'', JNull)],
              JDict [(''label'', JStr ''Square'')]]"
    "parse_int ''abc'' = None"
    by (simp_all add: wf_width_def video_wf_width_def int_like_def int_simps)
  from width_keys [where ys = "[JDict [(''label'', JStr ''Large''), (''width'', JStr ''1024'')],
                                  JDict [(''label'', JStr ''Small'')]]"
      and kvs = ?kvs and xs = ?xs and wd = JNull
      and photo = ?photo and photo_id = "''1''" and base_dir = PHOTOS_DIR and fav = False
      and w = empty_world and E = ?E and info = ?info and md = md and ?w1.0 = "snd ?X"
      and media = "JStr ''photo''" and sizes = ?sizes
      and kvm = "[(''label'', JStr ''Large'')]"
      and kvv = "[(''label'', JStr ''Large''), (''width'', JNull)]" and v = JNull
      and zs = "[JDict [(''label'', JStr ''Small''), (''width'', JStr [])],
              JDict [(''label'', JStr ''Medium''), (''width'', JStr ''640'')],
              JDict [(''label'', JStr ''Large''), (''width'', JNull)],
              JDict [(''label'', JStr ''Square'')]]"
      and kvw = "[(''label'', JStr ''Large''), (''width'', JStr ''abc'')]" and str = "''abc''"
      and us = "[JDict [(''label'', JStr ''Large''), (''width'', JStr ''abc'')]]"]
    records hyps wf
  show ?thesis by simp blast
qed

text \<open>The walk over the user's photos has no handler either: it ends in the same exception.\<close>

lemma bad_width_aborts_walk:
  "fst (download_my_photos (Suc 0) (quiet_env bad_width_answer) (empty_world\<lparr>dirs := {PHOTOS_DIR}\<rparr>))
     = Inl TypeError"
  by (simp add: download_my_photos_def listdir_def in_processed_def get_photos_def py_len_def py_ge_def
      stage_defs quiet_env_def empty_world_def bad_width_answer_def io_simps int_simps)

text \<open>
  The claim has the video selection treat a non-numeric string as 0: for the width
  \<open>'abc'\<close> both sort keys raise, and so does the sort of the video branch.
\<close>

theorem video_width_abc_raises:
  "photo_width (JDict [(''label'', JStr ''Large''), (''width'', JStr ''abc'')]) = Inl ValueError
   \<and> video_width (JDict [(''label'', JStr ''Large''), (''width'', JStr ''abc'')]) = Inl ValueError
   \<and> sorted_desc video_width [JDict [(''label'', JStr ''Large''), (''width'', JStr ''abc'')]] = Inl ValueError"
  by (simp add: photo_width_def video_width_def sorted_desc_def dict_get_def py_int_def int_simps)

subsection \<open>Skipping what is complete\<close>

lemma calm_refl: "calm w w"
  by (simp add: calm_def)

lemma calm_trans: "calm w w1 \<Longrightarrow> calm w1 w2 \<Longrightarrow> calm w w2"
  by (auto simp: calm_def)

lemma calm_trace: "list_all listing_only evs \<Longrightarrow> calm w (w\<lparr>trace := trace w @ evs\<rparr>)"
  by (simp add: calm_def)

lemma calm_path_exists: "calm w w' \<Longrightarrow> path_exists w' p = path_exists w p"
  by (simp add: calm_def path_exists_def)

lemma calm_page_completed: "calm w w' \<Longrightarrow> page_completed w ps \<Longrightarrow> page_completed w' ps"
  by (simp add: page_completed_def calm_path_exists)

lemma calm_all_completed: "calm w w' \<Longrightarrow> all_completed E w \<Longrightarrow> all_completed E w'"
  unfolding all_completed_def by (blast intro: calm_page_completed)

lemma process_photo_skip:
  assumes "subscr photo ''id'' = Inr (JStr photo_id)"
    and "path_exists w (marker_of base_dir photo_id)"
  shows "process_photo E photo base_dir fav w =
           (Inr (), w\<lparr>trace := trace w @ [Sleep RATE_DELAY,
              Print [Lit ''  Skipping '', Val (JStr photo_id), Lit '' - already processed'']]\<rparr>)"
  using assms process_photo_unfold[OF assms(1), of E base_dir fav w]
  by (simp add: marker_of_def Let_def)

lemma photos_loop_calm:
  assumes "page_completed w ps"
    and "photos_loop E processed_ids total_processed photos_data i ps w = (r, w')"
  shows "calm w w'"
  using assms
proof (induction ps arbitrary: w i)
  case Nil
  then show ?case by (simp add: returnIO_def calm_refl)
next
  case (Cons photo rest)
  from Cons.prems(1) obtain pid where pid: "subscr photo ''id'' = Inr (JStr pid)"
    and ex: "path_exists w (marker_of PHOTOS_DIR pid)" and rest: "page_completed w rest"
    by (auto simp: page_completed_def)
  show ?case
  proof (cases "processed_ids pid")
    case True
    with pid Cons.prems(2)
    have "photos_loop E processed_ids total_processed photos_data (i + 1) rest w = (r, w')"
      by (simp add: bindIO_def liftR_def in_processed_def)
    with rest show ?thesis by (rule Cons.IH)
  next
    case False
    show ?thesis
    proof (cases "bindR (subscr photos_data ''photos'') (\<lambda>p. subscr p ''total'')")
      case (Inl e)
      with False pid Cons.prems(2) have "w' = w"
        by (simp add: bindIO_def liftR_def in_processed_def)
      then show ?thesis by (simp add: calm_refl)
    next
      case (Inr total)
      let ?w1 = "w\<lparr>trace := trace w @ [Print [Lit (CHR 0x0A # ''[''), Val (JInt (total_processed + i)),
                            Lit ''/'', Val total, Lit '']'']]\<rparr>"
      let ?w2 = "?w1\<lparr>trace := trace ?w1 @ [Sleep RATE_DELAY,
              Print [Lit ''  Skipping '', Val (JStr pid), Lit '' - already processed'']]\<rparr>"
      have c1: "calm w ?w1" by (rule calm_trace) (simp add: listing_only_def)
      have c2: "calm ?w1 ?w2" by (rule calm_trace) (simp add: listing_only_def)
      have c: "calm w ?w2" using c1 c2 by (rule calm_trans)
      have ex1: "path_exists ?w1 (marker_of PHOTOS_DIR pid)" using ex by (simp add: path_exists_def)
      have skip: "process_photo E photo PHOTOS_DIR False ?w1 = (Inr (), ?w2)"
        by (rule process_photo_skip[OF pid ex1])
      from False pid Inr Cons.prems(2) skip
      have "photos_loop E processed_ids total_processed photos_data (i + 1) rest ?w2 = (r, w')"
        by (simp add: bindIO_def liftR_def in_processed_def emit_def)
      with calm_page_completed[OF c rest] have "calm ?w2 w'" by (rule Cons.IH)
      with c show ?thesis by (rule calm_trans)
    qed
  qed
qed

lemma pages_loop_calm:
  assumes "all_completed E w"
    and "pages_loop fuel E processed_ids page total_processed w = (r, w')"
  shows "calm w w'"
  using assms
proof (induction fuel arbitrary: w page total_processed)
  case 0
  then show ?case by (simp add: returnIO_def calm_refl)
next
  case (Suc fuel)
  let ?rq = "PeopleGetPhotos (USER_ID E) 100 page"
  let ?w1 = "w\<lparr>trace := trace w @ [Print [Lit (CHR 0x0A # ''Fetching page ''), Val (JInt page), Lit ''...'']]\<rparr>"
  let ?w2 = "?w1\<lparr>trace := trace ?w1 @ [Remote ?rq]\<rparr>"
  have c1: "calm w ?w1" by (rule calm_trace) (simp add: listing_only_def)
  have "calm ?w1 ?w2" by (rule calm_trace) (simp add: listing_only_def)
  with c1 have c2: "calm w ?w2" by (rule calm_trans)
  note defs = bindIO_def emit_def get_photos_def flickr_call_def liftR_def returnIO_def
  show ?case
  proof (cases "remote E (tick ?w1) ?rq")
    case (Inl e)
    with Suc.prems(2) have "w' = ?w2" by (simp add: defs)
    with c2 show ?thesis by simp
  next
    case data: (Inr photos_data)
    show ?thesis
    proof (cases "bindR (subscr photos_data ''photos'') (\<lambda>p. subscr p ''photo'')")
      case (Inl e)
      with data Suc.prems(2) have "w' = ?w2" by (simp add: defs)
      with c2 show ?thesis by simp
    next
      case photos: (Inr photos)
      show ?thesis
      proof (cases "truthy photos")
        case False
        with data photos Suc.prems(2) have "w' = ?w2" by (simp add: defs)
        with c2 show ?thesis by simp
      next
        case True
        show ?thesis
        proof (cases "py_len photos")
          case (Inl e)
          with True data photos Suc.prems(2) have "w' = ?w2" by (simp add: defs)
          with c2 show ?thesis by simp
        next
          case len: (Inr n)
          let ?w3 = "?w2\<lparr>trace := trace ?w2 @ [Print [Lit ''Found '', Val (JInt n),
                        Lit '' photos on page '', Val (JInt page)]]\<rparr>"
          have "calm ?w2 ?w3" by (rule calm_trace) (simp add: listing_only_def)
          with c2 have c3: "calm w ?w3" by (rule calm_trans)
          show ?thesis
          proof (cases "py_iter photos")
            case (Inl e)
            with True len data photos Suc.prems(2) have "w' = ?w3" by (simp add: defs)
            with c3 show ?thesis by simp
          next
            case iter: (Inr ps)
            obtain r4 w4 where loop: "photos_loop E processed_ids total_processed photos_data 1 ps ?w3 = (r4, w4)"
              by (cases "photos_loop E processed_ids total_processed photos_data 1 ps ?w3")
            from Suc.prems(1) data photos iter have "page_completed w ps"
              unfolding all_completed_def by blast
            with c3 have "page_completed ?w3 ps" by (rule calm_page_completed)
            then have "calm ?w3 w4" using loop by (rule photos_loop_calm)
            with c3 have c4: "calm w w4" by (rule calm_trans)
            show ?thesis
            proof (cases r4)
              case (Inl e)
              with True len iter data photos loop Suc.prems(2) have "w' = w4" by (simp add: defs)
              with c4 show ?thesis by simp
            next
              case r4: (Inr u)
              show ?thesis
              proof (cases "bindR (bindR (subscr photos_data ''photos'') (\<lambda>p. subscr p ''pages'')) (py_ge page)")
                case (Inl e)
                with r4 True len iter data photos loop Suc.prems(2) have "w' = w4" by (simp add: defs)
                with c4 show ?thesis by simp
              next
                case last: (Inr last_page)
                show ?thesis
                proof (cases last_page)
                  case True
                  with last r4 \<open>truthy photos\<close> len iter data photos loop Suc.prems(2)
                  have "w' = w4" by (simp add: defs)
                  with c4 show ?thesis by simp
                next
                  case False
                  with last r4 \<open>truthy photos\<close> len iter data photos loop Suc.prems(2)
                  have "pages_loop fuel E processed_ids (page + 1) (total_processed + n) w4 = (r, w')"
                    by (simp add: defs)
                  with calm_all_completed[OF c4 Suc.prems(1)] have "calm w4 w'" by (rule Suc.IH)
                  with c4 show ?thesis by (rule calm_trans)
                qed
              qed
            qed
          qed
        qed
      qed
    qed
  qed
qed

lemma download_my_photos_calm:
  assumes "all_completed E w" and "download_my_photos fuel E w = (r, w')"
  shows "calm w w'"
proof -
  let ?w1 = "w\<lparr>trace := trace w @ [Print [Lit (CHR 0x0A # ''Downloading photos for user ''), Val (JStr (USER_ID E))]]\<rparr>"
  have c1: "calm w ?w1" by (rule calm_trace) (simp add: listing_only_def)
  show ?thesis
  proof (cases "listdir PHOTOS_DIR ?w1")
    case (Pair rl wl)
    then have wl: "wl = ?w1" by (auto simp: listdir_def split: if_splits)
    show ?thesis
    proof (cases rl)
      case (Inl e)
      with Pair wl assms(2) have "w' = ?w1" by (simp add: download_my_photos_def bindIO_def emit_def)
      with c1 show ?thesis by simp
    next
      case (Inr processed_ids)
      obtain r2 w2 where loop: "pages_loop fuel E processed_ids 1 0 ?w1 = (r2, w2)"
        by (cases "pages_loop fuel E processed_ids 1 0 ?w1")
      from calm_all_completed[OF c1 assms(1)] loop have "calm ?w1 w2" by (rule pages_loop_calm)
      with c1 have c2: "calm w w2" by (rule calm_trans)
      show ?thesis
      proof (cases r2)
        case (Inl e)
        with Inr Pair wl loop assms(2) have "w' = w2"
          by (simp add: download_my_photos_def bindIO_def emit_def)
        with c2 show ?thesis by simp
      next
        case r2: (Inr res)
        show ?thesis
        proof (cases res)
          case None
          with r2 Inr Pair wl loop assms(2) have "w' = w2"
            by (simp add: download_my_photos_def bindIO_def emit_def returnIO_def)
          with c2 show ?thesis by simp
        next
          case (Some n)
          with r2 Inr Pair wl loop assms(2)
          have "w' = w2\<lparr>trace := trace w2 @ [Print [Lit (CHR 0x0A # ''Completed downloading ''),
                              Val (JInt n), Lit '' photos'']]\<rparr>"
            by (simp add: download_my_photos_def bindIO_def emit_def returnIO_def)
          moreover have "calm w2 (w2\<lparr>trace := trace w2 @ [Print [Lit (CHR 0x0A # ''Completed downloading ''),
                              Val (JInt n), Lit '' photos'']]\<rparr>)"
            by (rule calm_trace) (simp add: listing_only_def)
          ultimately show ?thesis using c2 by (auto intro: calm_trans)
        qed
      qed
    qed
  qed
qed

text \<open>
  Claim C5. When the completion marker of a photo exists, \<open>process_photo\<close> sleeps,
  prints that it skips the photo and returns: no remote call, no download, no file
  written, the world otherwise as it was. Hence a walk over the owned photos, all of
  whose listed photos are complete, leaves the disk and the user cache as they were,
  and the only remote calls it makes are the listings of the pages themselves.
\<close>

theorem completed_photos_are_skipped:
  "(subscr photo ''id'' = Inr (JStr photo_id) \<and> path_exists w (marker_of base_dir photo_id)
      \<longrightarrow> process_photo E photo base_dir fav w =
           (Inr (), w\<lparr>trace := trace w @ [Sleep RATE_DELAY,
              Print [Lit ''  Skipping '', Val (JStr photo_id), Lit '' - already processed'']]\<rparr>))
   \<and> (all_completed E w \<and> download_my_photos fuel E w = (r, w')
      \<longrightarrow> files w' = files w \<and> dirs w' = dirs w \<and> user_cache w' = user_cache w
          \<and> (\<exists>evs. trace w' = trace w @ evs \<and> list_all listing_only evs))"
  using process_photo_skip[of photo photo_id w base_dir E fav]
    download_my_photos_calm[of E w fuel r w']
  by (simp add: calm_def)

theorem completed_photos_are_skipped_witness:
  "subscr (JDict [(''id'', JStr ''1'')]) ''id'' = Inr (JStr ''1'')
   \<and> path_exists done_world (marker_of PHOTOS_DIR ''1'')
   \<and> all_completed (quiet_env listing_answer) done_world
   \<and> process_photo (quiet_env listing_answer) (JDict [(''id'', JStr ''1'')]) PHOTOS_DIR False done_world
       = (Inr (), done_world\<lparr>trace := [Sleep RATE_DELAY,
              Print [Lit ''  Skipping '', Val (JStr ''1''), Lit '' - already processed'']]\<rparr>)
   \<and> files (snd (download_my_photos 3 (quiet_env listing_answer) done_world)) = files done_world
   \<and> list_all listing_only (trace (snd (download_my_photos 3 (quiet_env listing_answer) done_world)))"
proof -
  have h1: "subscr (JDict [(''id'', JStr ''1'')]) ''id'' = Inr (JStr ''1'')"
    by (simp add: subscr_def)
  have h2: "path_exists done_world (marker_of PHOTOS_DIR ''1'')"
    by (simp add: path_exists_def done_world_def)
  have h3: "all_completed (quiet_env listing_answer) done_world"
    unfolding all_completed_def page_completed_def
    by (auto simp: quiet_env_def listing_answer_def bindR_def subscr_def py_iter_def h2)
  have h4: "download_my_photos 3 (quiet_env listing_answer) done_world
      = (fst (download_my_photos 3 (quiet_env listing_answer) done_world),
         snd (download_my_photos 3 (quiet_env listing_answer) done_world))"
    by simp
  have t: "trace done_world = []" by (simp add: done_world_def)
  from completed_photos_are_skipped[of "JDict [(''id'', JStr ''1'')]" "''1''" done_world PHOTOS_DIR
      "quiet_env listing_answer" False 3 "fst (download_my_photos 3 (quiet_env listing_answer) done_world)"
      "snd (download_my_photos 3 (quiet_env listing_answer) done_world)"] h1 h2 h3 h4 t
  show ?thesis by auto
qed

subsection \<open>A photo without sizes\<close>

lemma stage_media_empty_sizes:
  assumes "bindR (subscr info ''photo'') (\<lambda>p. dict_get p ''media'' (JStr ''photo'')) = Inr media"
    and "media \<noteq> JStr ''video''"
    and "remote E (tick w1) (PhotosGetSizes photo_id) = Inr sizes"
    and "size_list sizes = Inr (JList [])"
  shows "stage_media E photo_id d info md w1
           = (Inr md, w1\<lparr>trace := trace w1 @ [Remote (PhotosGetSizes photo_id)]\<rparr>)"
  using assms
  by (simp add: stage_media_def photo_branch_def get_photo_sizes_def flickr_call_def
      select_original_def py_iter_def bindIO_def liftR_def returnIO_def)

text \<open>
  Claim C9. A photo that is not a video and whose fetched list of sizes is empty: the
  sizes step returns normally after the one fetch, with no binary download and no
  \<open>sizes.json\<close>; and when the record files were written and the disk takes the
  marker, \<open>process_photo\<close> returns normally with the marker written, while
  \<open>sizes.json\<close> is as it was before the run. A unit that counts as complete can so be
  without a sizes file.
\<close>

theorem empty_sizes_still_complete:
  assumes id: "subscr photo ''id'' = Inr (JStr photo_id)"
    and fresh: "\<not> path_exists w (marker_of base_dir photo_id)"
    and records: "archive_records E photo photo_id (path_join base_dir photo_id) fav
                    (w\<lparr>trace := trace w @ [Sleep RATE_DELAY]\<rparr>) = (Inr (info, md), w1)"
    and media: "bindR (subscr info ''photo'') (\<lambda>p. dict_get p ''media'' (JStr ''photo'')) = Inr media"
      "media \<noteq> JStr ''video''"
    and sizes: "remote E (tick w1) (PhotosGetSizes photo_id) = Inr sizes" "size_list sizes = Inr (JList [])"
    and disk: "open_error E (Suc (tick w1)) (marker_of base_dir photo_id) = None"
      "write_error E (Suc (Suc (tick w1))) (marker_of base_dir photo_id) = None"
  shows "stage_media E photo_id (path_join base_dir photo_id) info md w1
           = (Inr md, w1\<lparr>trace := trace w1 @ [Remote (PhotosGetSizes photo_id)]\<rparr>)
       \<and> process_photo E photo base_dir fav w
           = (Inr (), w1\<lparr>files := (files w1)(marker_of base_dir photo_id
                                        \<mapsto> Text (now_iso E (Suc (Suc (tick w1))))),
                         trace := trace w1 @ [Remote (PhotosGetSizes photo_id),
                                    Wrote (marker_of base_dir photo_id), Sleep 500]\<rparr>)
       \<and> files w1 (path_join (path_join base_dir photo_id) ''sizes.json'')
           = files w (path_join (path_join base_dir photo_id) ''sizes.json'')"
proof (intro conjI)
  let ?d = "path_join base_dir photo_id"
  show sm: "stage_media E photo_id ?d info md w1
           = (Inr md, w1\<lparr>trace := trace w1 @ [Remote (PhotosGetSizes photo_id)]\<rparr>)"
    using media sizes by (rule stage_media_empty_sizes)
  from fresh have "\<not> path_exists w (path_join ?d ''complete.flag'')" by (simp add: marker_of_def)
  with process_photo_unfold[OF id, of E base_dir fav w] records sm disk
  show "process_photo E photo base_dir fav w
           = (Inr (), w1\<lparr>files := (files w1)(marker_of base_dir photo_id
                                        \<mapsto> Text (now_iso E (Suc (Suc (tick w1))))),
                         trace := trace w1 @ [Remote (PhotosGetSizes photo_id),
                                    Wrote (marker_of base_dir photo_id), Sleep 500]\<rparr>)"
    by (simp add: Let_def before_marker_def bindIO_def mark_complete_def write_file_def emit_def
        tick_def marker_of_def)
  have "only (\<lambda>ev. ev \<noteq> Wrote (path_join ?d ''sizes.json'')) (archive_records E photo photo_id ?d fav)"
    by (intro only_archive_records) (simp_all add: path_join_neq)
  from onlyD[OF this records]
  obtain evs where "list_all (\<lambda>ev. ev \<noteq> Wrote (path_join ?d ''sizes.json'')) evs"
    "\<forall>p. files w1 p \<noteq> files (w\<lparr>trace := trace w @ [Sleep RATE_DELAY]\<rparr>) p \<longrightarrow> Wrote p \<in> set evs"
    by blast
  then show "files w1 (path_join ?d ''sizes.json'') = files w (path_join ?d ''sizes.json'')"
    by (auto simp: list_all_iff)
qed

lemma plain_records:
  "\<exists>md. fst (archive_records (quiet_env plain_answer) (JDict [(''id'', JStr ''1'')]) ''1''
            (path_join PHOTOS_DIR ''1'') False (empty_world\<lparr>trace := trace empty_world @ [Sleep RATE_DELAY]\<rparr>))
        = Inr (JDict [(''photo'', JDict [
            (''media'', JStr ''photo''), (''title'', JDict [(''_content'', JStr ''Sunset'')]),
            (''views'', JInt 3)])], md)"
  by (simp add: archive_records_def stage_metadata_def stage_comments_def stage_favorites_def stage_exif_def
      get_photo_info_def get_photo_geo_def get_photo_contexts_def get_photo_comments_def
      get_photo_favorites_def get_photo_exif_def photo_metadata_def photo_location_def photo_albums_def
      PHOTOS_DIR_def DATA_DIR_def quiet_env_def empty_world_def plain_answer_def io_simps)

text \<open>On an empty disk: the run returns, the marker is there, \<open>sizes.json\<close> is not.\<close>

theorem empty_sizes_still_complete_witness:
  "subscr (JDict [(''id'', JStr ''1'')]) ''id'' = Inr (JStr ''1'')
   \<and> \<not> path_exists empty_world (marker_of PHOTOS_DIR ''1'')
   \<and> fst (process_photo (quiet_env plain_answer) (JDict [(''id'', JStr ''1'')]) PHOTOS_DIR False empty_world)
       = Inr ()
   \<and> files (snd (process_photo (quiet_env plain_answer) (JDict [(''id'', JStr ''1'')]) PHOTOS_DIR False empty_world))
       (marker_of PHOTOS_DIR ''1'') = Some (Text ''2024-01-01T00:00:00'')
   \<and> files (snd (process_photo (quiet_env plain_answer) (JDict [(''id'', JStr ''1'')]) PHOTOS_DIR False empty_world))
       (path_join (path_join PHOTOS_DIR ''1'') ''sizes.json'') = None"
proof -
  let ?E = "quiet_env plain_answer"
  let ?photo = "JDict [(''id'', JStr ''1'')]"
  let ?info = "JDict [(''photo'', JDict [
            (''media'', JStr ''photo''), (''title'', JDict [(''_content'', JStr ''Sunset'')]),
            (''views'', JInt 3)])]"
  let ?X = "archive_records ?E ?photo ''1'' (path_join PHOTOS_DIR ''1'') False
              (empty_world\<lparr>trace := trace empty_world @ [Sleep RATE_DELAY]\<rparr>)"
  have id: "subscr ?photo ''id'' = Inr (JStr ''1'')" by (simp add: subscr_def)
  have fresh: "\<not> path_exists empty_world (marker_of PHOTOS_DIR ''1'')"
    by (simp add: path_exists_def empty_world_def)
  from plain_records obtain md where "fst ?X = Inr (?info, md)" by blast
  then have records: "?X = (Inr (?info, md), snd ?X)" by (metis prod.collapse)
  have media: "bindR (subscr ?info ''photo'') (\<lambda>p. dict_get p ''media'' (JStr ''photo'')) = Inr (JStr ''photo'')"
    "JStr ''photo'' \<noteq> JStr ''video''"
    by (simp_all add: subscr_def dict_get_def)
  have sizes: "remote ?E (tick (snd ?X)) (PhotosGetSizes ''1'') = Inr (JDict [(''sizes'', JDict [(''size'', JList [])])])"
    "size_list (JDict [(''sizes'', JDict [(''size'', JList [])])]) = Inr (JList [])"
    by (simp_all add: quiet_env_def plain_answer_def size_list_def subscr_def)
  have disk: "open_error ?E (Suc (tick (snd ?X))) (marker_of PHOTOS_DIR ''1'') = None"
    "write_error ?E (Suc (Suc (tick (snd ?X)))) (marker_of PHOTOS_DIR ''1'') = None"
    by (simp_all add: quiet_env_def)
  have ne: "path_join (path_join PHOTOS_DIR ''1'') ''sizes.json'' \<noteq> marker_of PHOTOS_DIR ''1''"
    by (simp add: marker_of_def path_join_neq)
  have now: "now_iso ?E (Suc (Suc (tick (snd ?X)))) = ''2024-01-01T00:00:00''"
    by (simp add: quiet_env_def)
  have none: "files empty_world (path_join (path_join PHOTOS_DIR ''1'') ''sizes.json'') = None"
    by (simp add: empty_world_def)
  from empty_sizes_still_complete[OF id fresh records media sizes disk] id fresh ne now none
  show ?thesis by simp
qed

subsection \<open>The stats and the video advisory of the metadata\<close>

lemma bindR_eq_Inr: "bindR m f = Inr y \<longleftrightarrow> (\<exists>x. m = Inr x \<and> f x = Inr y)"
  by (cases m) simp_all

lemma photo_metadata_stats:
  assumes "photo_metadata E photo_id info = Inr md"
  shows "\<exists>p v c f. subscr info ''photo'' = Inr p
           \<and> bindR (dict_get p ''views'' (JInt 0)) py_int = Inr v
           \<and> bindR (get_content p ''comments'' (JInt 0)) py_int = Inr c
           \<and> bindR (dict_get p ''isfavorite'' (JInt 0)) py_int = Inr f
           \<and> map_of md ''stats'' = Some (JDict [(''views'', JInt v), (''comments'', JInt c),
                                                 (''favorites'', JInt f)])"
  using assms unfolding photo_metadata_def bindR_eq_Inr
  by (elim exE conjE) (simp add: bindR_eq_Inr, auto)

lemma save_json_written:
  "save_json E data p w = (Inr u, w') \<Longrightarrow> files w' p = Some (Json data)"
  by (auto simp: save_json_def makedirs_def write_file_def bindIO_def Let_def
      split: if_splits option.splits)

lemma stage_metadata_saved:
  assumes "stage_metadata E photo photo_id d fav w = (Inr (info, md), w1)"
  shows "remote E (tick w) (PhotosGetInfo photo_id) = Inr info
       \<and> files w1 (path_join d ''metadata.json'') = Some (Json (JDict md))
       \<and> (\<exists>md0. photo_metadata E photo_id info = Inr md0 \<and> map_of md ''stats'' = map_of md0 ''stats'')"
  using assms unfolding stage_metadata_def
  by (auto elim!: bindIO_cases simp: returnIO_def liftR_def get_photo_info_def flickr_call_def
      dict_set_def update_conv' dest!: save_json_written split: if_splits option.splits)

lemma only_finish:
  assumes "P (Wrote (path_join d ''complete.flag''))" and "P (Sleep 500)"
  shows "only P (bindIO (mark_complete E d) (\<lambda>_. emit (Sleep 500)))"
  unfolding mark_complete_def by (intro only_bind only_write_file only_emit assms)

lemma metadata_kept:
  assumes "only (\<lambda>ev. ev \<noteq> Wrote p) m" and "m w = (r, w')"
  shows "files w' p = files w p"
proof -
  from onlyD[OF assms] obtain evs where "list_all (\<lambda>ev. ev \<noteq> Wrote p) evs"
    "\<forall>q. files w' q \<noteq> files w q \<longrightarrow> Wrote q \<in> set evs" by blast
  then show ?thesis by (auto simp: list_all_iff)
qed

text \<open>
  Claim C8, as the code has it. The metadata record that \<open>process_photo\<close> builds from the
  photo info and saves as \<open>metadata.json\<close> has stats that hold the view count, the
  comment count and, under the key \<open>favorites\<close>, the integer value of the field
  \<open>isfavorite\<close> of the photo info (0 when the field is missing): the flag that says
  whether the calling user has the photo among the favourites, not the number of users
  who have. This holds of the record as the metadata step returns and saves it, and of
  the file that a complete run leaves.
\<close>

theorem stats_favorites_is_isfavorite:
  "(stage_metadata E photo photo_id d fav w0 = (Inr (info, md), w1)
      \<longrightarrow> remote E (tick w0) (PhotosGetInfo photo_id) = Inr info
          \<and> files w1 (path_join d ''metadata.json'') = Some (Json (JDict md))
          \<and> (\<exists>p v c f. subscr info ''photo'' = Inr p
                \<and> bindR (dict_get p ''views'' (JInt 0)) py_int = Inr v
                \<and> bindR (get_content p ''comments'' (JInt 0)) py_int = Inr c
                \<and> bindR (dict_get p ''isfavorite'' (JInt 0)) py_int = Inr f
                \<and> map_of md ''stats'' = Some (JDict [(''views'', JInt v), (''comments'', JInt c),
                                                      (''favorites'', JInt f)])))
   \<and> (subscr photo' ''id'' = Inr (JStr pid) \<and> \<not> path_exists w (marker_of base_dir pid)
        \<and> process_photo E' photo' base_dir fav' w = (Inr (), w')
      \<longrightarrow> (\<exists>info' md' p v c f.
             remote E' (tick w + 2) (PhotosGetInfo pid) = Inr info'
           \<and> files w' (path_join (path_join base_dir pid) ''metadata.json'') = Some (Json (JDict md'))
           \<and> subscr info' ''photo'' = Inr p
           \<and> bindR (dict_get p ''views'' (JInt 0)) py_int = Inr v
           \<and> bindR (get_content p ''comments'' (JInt 0)) py_int = Inr c
           \<and> bindR (dict_get p ''isfavorite'' (JInt 0)) py_int = Inr f
           \<and> map_of md' ''stats'' = Some (JDict [(''views'', JInt v), (''comments'', JInt c),
                                                  (''favorites'', JInt f)])))"
proof (intro conjI impI)
  assume "stage_metadata E photo photo_id d fav w0 = (Inr (info, md), w1)"
  from stage_metadata_saved[OF this]
  obtain md0 where s: "remote E (tick w0) (PhotosGetInfo photo_id) = Inr info"
    "files w1 (path_join d ''metadata.json'') = Some (Json (JDict md))"
    "photo_metadata E photo_id info = Inr md0" "map_of md ''stats'' = map_of md0 ''stats''"
    by blast
  from s(1) show "remote E (tick w0) (PhotosGetInfo photo_id) = Inr info" .
  from s(2) show "files w1 (path_join d ''metadata.json'') = Some (Json (JDict md))" .
  from photo_metadata_stats[OF s(3)] s(4)
  show "\<exists>p v c f. subscr info ''photo'' = Inr p
                \<and> bindR (dict_get p ''views'' (JInt 0)) py_int = Inr v
                \<and> bindR (get_content p ''comments'' (JInt 0)) py_int = Inr c
                \<and> bindR (dict_get p ''isfavorite'' (JInt 0)) py_int = Inr f
                \<and> map_of md ''stats'' = Some (JDict [(''views'', JInt v), (''comments'', JInt c),
                                                      (''favorites'', JInt f)])"
    by simp
next
  let ?d = "path_join base_dir pid"
  let ?J = "path_join ?d ''metadata.json''"
  let ?P = "\<lambda>ev. ev \<noteq> Wrote ?J"
  let ?w0 = "w\<lparr>trace := trace w @ [Sleep RATE_DELAY]\<rparr>"
  assume a: "subscr photo' ''id'' = Inr (JStr pid) \<and> \<not> path_exists w (marker_of base_dir pid)
        \<and> process_photo E' photo' base_dir fav' w = (Inr (), w')"
  then have id: "subscr photo' ''id'' = Inr (JStr pid)"
    and fresh: "\<not> path_exists w (path_join ?d ''complete.flag'')"
    and run: "process_photo E' photo' base_dir fav' w = (Inr (), w')"
    by (simp_all add: marker_of_def)
  from run fresh process_photo_unfold[OF id, of E' base_dir fav' w]
  have "bindIO (before_marker E' photo' pid ?d fav')
                  (\<lambda>md. bindIO (mark_complete E' ?d) (\<lambda>_. emit (Sleep 500))) ?w0 = (Inr (), w')"
    by (simp add: Let_def)
  then obtain mdx w3 where bm: "before_marker E' photo' pid ?d fav' ?w0 = (Inr mdx, w3)"
    and fin: "bindIO (mark_complete E' ?d) (\<lambda>_. emit (Sleep 500)) w3 = (Inr (), w')"
    by (cases rule: bindIO_cases) simp_all
  from bm obtain im w2 where ar: "archive_records E' photo' pid ?d fav' ?w0 = (Inr im, w2)"
    and sm: "stage_media E' pid ?d (fst im) (snd im) w2 = (Inr mdx, w3)"
    unfolding before_marker_def by (cases rule: bindIO_cases) simp_all
  let ?wp = "?w0\<lparr>trace := trace ?w0 @ [Print [Lit ''  Processing photo '', Val (JStr pid), Lit ''...'']]\<rparr>"
  let ?tail = "\<lambda>im. bindIO (stage_comments E' pid ?d) (\<lambda>_.
                 bindIO (stage_favorites E' pid ?d) (\<lambda>_.
                 bindIO (stage_exif E' pid ?d) (\<lambda>_. returnIO im)))"
  from ar have "bindIO (stage_metadata E' photo' pid ?d fav') ?tail ?wp = (Inr im, w2)"
    by (simp add: archive_records_def bindIO_def[of "emit _"] emit_def)
  then obtain im0 w1 where st: "stage_metadata E' photo' pid ?d fav' ?wp = (Inr im0, w1)"
    and tl: "?tail im0 w1 = (Inr im, w2)"
    by (cases rule: bindIO_cases) simp_all
  have "only ?P (?tail im0)"
    by (intro only_bind only_stage_comments only_stage_favorites only_stage_exif only_returnIO)
       (simp_all add: path_join_neq)
  from metadata_kept[OF this tl] have k1: "files w2 ?J = files w1 ?J" .
  have "only ?P (stage_media E' pid ?d (fst im) (snd im))"
    by (intro only_stage_media) (simp_all add: path_join_def)
  from metadata_kept[OF this sm] have k2: "files w3 ?J = files w2 ?J" .
  have "only ?P (bindIO (mark_complete E' ?d) (\<lambda>_. emit (Sleep 500)))"
    by (intro only_finish) (simp_all add: path_join_neq)
  from metadata_kept[OF this fin] have k3: "files w' ?J = files w3 ?J" .
  obtain info' md' where im0: "im0 = (info', md')" by (cases im0)
  from stage_metadata_saved[OF st[unfolded im0]]
  obtain md0 where s: "remote E' (tick ?wp) (PhotosGetInfo pid) = Inr info'"
    "files w1 ?J = Some (Json (JDict md'))"
    "photo_metadata E' pid info' = Inr md0" "map_of md' ''stats'' = map_of md0 ''stats''"
    by blast
  have t: "tick ?wp = tick w + 2" by (simp add: tick_def)
  from photo_metadata_stats[OF s(3)] s(1,2,4) k1 k2 k3 t
  show "\<exists>info' md' p v c f.
             remote E' (tick w + 2) (PhotosGetInfo pid) = Inr info'
           \<and> files w' ?J = Some (Json (JDict md'))
           \<and> subscr info' ''photo'' = Inr p
           \<and> bindR (dict_get p ''views'' (JInt 0)) py_int = Inr v
           \<and> bindR (get_content p ''comments'' (JInt 0)) py_int = Inr c
           \<and> bindR (dict_get p ''isfavorite'' (JInt 0)) py_int = Inr f
           \<and> map_of md' ''stats'' = Some (JDict [(''views'', JInt v), (''comments'', JInt c),
                                                  (''favorites'', JInt f)])"
    by (metis (no_types, lifting))
qed

lemma video_metadata_returns:
  "\<exists>md. fst (stage_metadata (quiet_env video_answer) (JDict [(''id'', JStr ''1'')]) ''1''
               (path_join PHOTOS_DIR ''1'') False empty_world)
        = Inr (JDict [(''photo'', JDict [
              (''media'', JStr ''video''), (''views'', JStr ''10''), (''isfavorite'', JInt 0),
              (''urls'', JDict [(''url'', JList [JDict [(''type'', JStr ''photopage''),
                (''_content'', JStr ''https://www.flickr.com/photos/me/1/'')]])])])], md)"
  by (simp add: stage_defs quiet_env_def empty_world_def video_answer_def io_simps int_simps)

lemma video_run_returns:
  "fst (process_photo (quiet_env video_answer) (JDict [(''id'', JStr ''1'')]) PHOTOS_DIR False empty_world)
     = Inr ()"
  by (simp add: stage_defs quiet_env_def empty_world_def video_answer_def io_simps int_simps)

text \<open>
  The video of the example, viewed ten times and no favourite of the caller: the record
  that the metadata step saves, and the \<open>metadata.json\<close> that the complete run leaves,
  have the stats 10, 0 and 0.
\<close>

theorem stats_favorites_is_isfavorite_witness:
  "(\<exists>info md w1. stage_metadata (quiet_env video_answer) (JDict [(''id'', JStr ''1'')]) ''1''
                    (path_join PHOTOS_DIR ''1'') False empty_world = (Inr (info, md), w1)
       \<and> files w1 (path_join (path_join PHOTOS_DIR ''1'') ''metadata.json'') = Some (Json (JDict md))
       \<and> map_of md ''stats'' = Some (JDict [(''views'', JInt 10), (''comments'', JInt 0),
                                               (''favorites'', JInt 0)]))
   \<and> subscr (JDict [(''id'', JStr ''1'')]) ''id'' = Inr (JStr ''1'')
   \<and> \<not> path_exists empty_world (marker_of PHOTOS_DIR ''1'')
   \<and> (\<exists>md w'. process_photo (quiet_env video_answer) (JDict [(''id'', JStr ''1'')]) PHOTOS_DIR False empty_world
                  = (Inr (), w')
       \<and> files w' (path_join (path_join PHOTOS_DIR ''1'') ''metadata.json'') = Some (Json (JDict md))
       \<and> map_of md ''stats'' = Some (JDict [(''views'', JInt 10), (''comments'', JInt 0),
                                               (''favorites'', JInt 0)]))"
proof -
  let ?E = "quiet_env video_answer"
  let ?photo = "JDict [(''id'', JStr ''1'')]"
  let ?info = "JDict [(''photo'', JDict [
              (''media'', JStr ''video''), (''views'', JStr ''10''), (''isfavorite'', JInt 0),
              (''urls'', JDict [(''url'', JList [JDict [(''type'', JStr ''photopage''),
                (''_content'', JStr ''https://www.flickr.com/photos/me/1/'')]])])])]"
  let ?S = "stage_metadata ?E ?photo ''1'' (path_join PHOTOS_DIR ''1'') False empty_world"
  let ?X = "process_photo ?E ?photo PHOTOS_DIR False empty_world"
  let ?J = "path_join (path_join PHOTOS_DIR ''1'') ''metadata.json''"
  let ?stats = "Some (JDict [(''views'', JInt 10), (''comments'', JInt 0), (''favorites'', JInt 0)])"
  have id: "subscr ?photo ''id'' = Inr (JStr ''1'')" by (simp add: subscr_def)
  have fresh: "\<not> path_exists empty_world (marker_of PHOTOS_DIR ''1'')"
    by (simp add: path_exists_def empty_world_def)
  have answer: "\<And>t info. remote ?E t (PhotosGetInfo ''1'') = Inr info \<Longrightarrow> info = ?info"
    by (simp add: quiet_env_def video_answer_def)
  have stats: "\<And>p v c f md. subscr ?info ''photo'' = Inr p
           \<Longrightarrow> bindR (dict_get p ''views'' (JInt 0)) py_int = Inr v
           \<Longrightarrow> bindR (get_content p ''comments'' (JInt 0)) py_int = Inr c
           \<Longrightarrow> bindR (dict_get p ''isfavorite'' (JInt 0)) py_int = Inr f
           \<Longrightarrow> map_of md ''stats'' = Some (JDict [(''views'', JInt v), (''comments'', JInt c),
                                                  (''favorites'', JInt f)])
           \<Longrightarrow> map_of md ''stats'' = ?stats"
    by (auto simp: bindR_def subscr_def dict_get_def get_content_def py_int_def int_simps)
  from video_metadata_returns obtain md where "fst ?S = Inr (?info, md)" by blast
  then have srun: "?S = (Inr (?info, md), snd ?S)" by (simp add: prod_eq_iff)
  have prun: "?X = (Inr (), snd ?X)" using video_run_returns by (simp add: prod_eq_iff)
  note inst = stats_favorites_is_isfavorite [where E = "?E" and photo = "?photo" and photo_id = "''1''"
      and d = "path_join PHOTOS_DIR ''1''" and fav = False and ?w0.0 = empty_world and info = "?info"
      and md = md and ?w1.0 = "snd ?S" and photo' = "?photo" and pid = "''1''" and base_dir = PHOTOS_DIR
      and E' = "?E" and fav' = False and w = empty_world and w' = "snd ?X"]
  from inst srun have 1: "files (snd ?S) ?J = Some (Json (JDict md))" "map_of md ''stats'' = ?stats"
    using stats by blast+
  from inst id fresh prun obtain info' md' p v c f where 2:
    "remote ?E (tick empty_world + 2) (PhotosGetInfo ''1'') = Inr info'"
    "files (snd ?X) ?J = Some (Json (JDict md'))"
    "subscr info' ''photo'' = Inr p"
    "bindR (dict_get p ''views'' (JInt 0)) py_int = Inr v"
    "bindR (get_content p ''comments'' (JInt 0)) py_int = Inr c"
    "bindR (dict_get p ''isfavorite'' (JInt 0)) py_int = Inr f"
    "map_of md' ''stats'' = Some (JDict [(''views'', JInt v), (''comments'', JInt c), (''favorites'', JInt f)])"
    by blast
  from answer[OF 2(1)] 2 stats have 3: "map_of md' ''stats'' = ?stats" by blast
  from srun 1 have A: "\<exists>info md w1. ?S = (Inr (info, md), w1)
       \<and> files w1 ?J = Some (Json (JDict md)) \<and> map_of md ''stats'' = ?stats"
    by blast
  from prun 2(2) 3 have B: "\<exists>md w'. ?X = (Inr (), w')
       \<and> files w' ?J = Some (Json (JDict md)) \<and> map_of md ''stats'' = ?stats"
    by blast
  from A id fresh B show ?thesis by blast
qed

text \<open>
  The claim has the stats hold the number of users who favourited the photo. For the
  video of the example two users did, and both are written to \<open>favorites.json\<close>,
  while the stats say 0.
\<close>

theorem stats_favorites_not_a_count:
  "(\<exists>md st. bindR (remote (quiet_env video_answer) 0 (PhotosGetInfo ''1''))
               (photo_metadata (quiet_env video_answer) ''1'') = Inr md
       \<and> map_of md ''stats'' = Some (JDict st) \<and> map_of st ''favorites'' = Some (JInt 0))
   \<and> (\<exists>w' a b. stage_favorites (quiet_env video_answer) ''1'' (path_join PHOTOS_DIR ''1'') empty_world
                   = (Inr (), w')
       \<and> files w' (path_join (path_join PHOTOS_DIR ''1'') ''favorites.json'') = Some (Json (JList [a, b])))"
  by (simp add: stage_defs quiet_env_def empty_world_def video_answer_def io_simps int_simps)

text \<open>
  Claim C2. The persisted metadata of a video is to hold the video advisory. The code
  saves \<open>metadata.json\<close> at line 161 and sets \<open>metadata['video_info']\<close> at line
  265, in memory only: for the video of the example the run completes, marker
  included, and the \<open>metadata.json\<close> on disk says \<open>video\<close> and has no
  \<open>video_info\<close>.
\<close>

theorem video_metadata_lacks_video_info:
  "\<exists>w' md. process_photo (quiet_env video_answer) (JDict [(''id'', JStr ''1'')]) PHOTOS_DIR False empty_world
              = (Inr (), w')
     \<and> files w' (path_join (path_join PHOTOS_DIR ''1'') ''metadata.json'') = Some (Json (JDict md))
     \<and> map_of md ''media'' = Some (JStr ''video'')
     \<and> map_of md ''video_info'' = None
     \<and> files w' (marker_of PHOTOS_DIR ''1'') \<noteq> None"
  by (simp add: stage_defs marker_of_def quiet_env_def empty_world_def video_answer_def io_simps int_simps)

text \<open>The dictionary that the video branch gives back does hold the advisory; nothing saves it.\<close>

lemma video_branch_sets_video_info:
  assumes "video_branch E photo_id d info md w = (Inr md', w')"
  shows "\<exists>urls. map_of md' ''video_info'' = Some (JDict [
               (''download_note'', JStr ''Video file must be downloaded manually from Flickr''),
               (''flickr_urls'', JList urls)])"
  using assms unfolding video_branch_def
  by (auto elim!: bindIO_cases simp: returnIO_def dict_set_def update_conv')

subsection \<open>The retry decorator\<close>


lemma wrapper_loop_returns:
  "func w = (Inr v, w1) \<Longrightarrow> wrapper_loop func (attempt # rest) w = (Inr (Some v), w1)"
  by simp

lemma wrapper_loop_fatal:
  "func w = (Inl (FlickrError msg), w1) \<Longrightarrow> \<not> transient msg
   \<Longrightarrow> wrapper_loop func (attempt # rest) w = (Inl (FlickrError msg), w1)"
  by simp








subsection \<open>What the gateway returns for a resource that is absent\<close>



end
